theory Spec2Isabelle
  imports Complex_Main "HOL-Library.Sublist"
begin

section \<open>Data model shared by the strategies\<close>

text \<open>
  The strategies are Python classes driven by the trading framework: on every tick the
  framework calls \<open>confirm_trade_entry\<close>, \<open>confirm_trade_exit\<close>, \<open>custom_stoploss\<close>,
  \<open>adjust_trade_position\<close> and \<open>custom_stake_amount\<close> with the current trade and market
  data. Python floats are modelled as \<open>real\<close> (no rounding, no NaN), times as seconds.
  A value of type \<open>'a option\<close> returned by a modelled body is \<open>None\<close> when the Python
  body raised an exception; where a callback wraps its body in \<open>try/except Exception\<close>,
  the body and the handler are two definitions, the second mapping \<open>None\<close> to what the
  handler returns.
\<close>

text \<open>A row of the analysed dataframe: column name to value. A dataframe is its rows.\<close>

type_synonym candle = "string \<rightharpoonup> real"
type_synonym dataframe = "candle list"

text \<open>\<open>current_candle.get(key, default)\<close>\<close>

definition candle_get :: "candle \<Rightarrow> string \<Rightarrow> real \<Rightarrow> real" where
  "candle_get c k d = (case c k of None \<Rightarrow> d | Some v \<Rightarrow> v)"

record order =
  ft_order_tag :: "string option"
  order_date :: "real option"
  status :: string
  safe_remaining :: real
  safe_price :: real

record trade =
  pair :: string
  stake_amount :: real
  stop_loss_pct :: "real option"
  open_date_utc :: real
  open_rate :: real
  is_short :: bool
  orders :: "order list"

text \<open>
  What the framework answers during one callback. \<open>None\<close> in the first three fields
  stands for the call raising.
  \<^item> \<open>total_stake_amount\<close>: \<open>self.wallets.get_total_stake_amount()\<close>
  \<^item> \<open>open_trades\<close>: \<open>Trade.get_trades_proxy(is_open=True)\<close>
  \<^item> \<open>analyzed_dataframe\<close>: \<open>self.dp.get_analyzed_dataframe(pair, self.timeframe)\<close>
  \<^item> \<open>calc_profit_ratio\<close>: \<open>trade.calc_profit_ratio(rate)\<close>
\<close>

record environment =
  total_stake_amount :: "real option"
  open_trades :: "trade list option"
  analyzed_dataframe :: "string \<Rightarrow> dataframe option"
  calc_profit_ratio :: "trade \<Rightarrow> real \<Rightarrow> real option"

text \<open>Python's \<open>x or d\<close> on an optional float: \<open>None\<close> and \<open>0.0\<close> are falsy.\<close>

definition or_default :: "real option \<Rightarrow> real \<Rightarrow> real" where
  "or_default x d = (case x of None \<Rightarrow> d | Some v \<Rightarrow> if v = 0 then d else v)"

section \<open>EnhancedRiskManagedStrategy\<close>

text \<open>The class attributes and parameter values the modelled methods read.\<close>

record erm_config =
  erm_stoploss :: real
  erm_base_stake_percent :: real
  erm_max_stake_percent :: real
  erm_volatility_factor :: real
  erm_max_total_risk :: real
  erm_risk_per_trade :: real
  erm_enable_dca :: bool

text \<open>
  \<open>sum(abs(trade.stake_amount * (trade.stop_loss_pct or 0.08)) for trade in open_trades)\<close>
\<close>

definition erm_total_risk :: "trade list \<Rightarrow> real" where
  "erm_total_risk ts =
     sum_list (map (\<lambda>t. \<bar>stake_amount t * or_default (stop_loss_pct t) (8 / 100)\<bar>) ts)"

text \<open>\<open>trade_risk = amount * rate * 0.08\<close>\<close>

definition erm_trade_risk :: "real \<Rightarrow> real \<Rightarrow> real" where
  "erm_trade_risk amount rate = amount * rate * (8 / 100)"

text \<open>The body of \<open>confirm_trade_entry\<close> inside its \<open>try\<close>.\<close>

definition erm_confirm_trade_entry_body ::
  "erm_config \<Rightarrow> environment \<Rightarrow> string \<Rightarrow> real \<Rightarrow> real \<Rightarrow> bool option" where
  "erm_confirm_trade_entry_body cfg env pr amount rate =
     (case total_stake_amount env of
        None \<Rightarrow> None
      | Some total_stake \<Rightarrow>
          if total_stake \<le> 0 then Some False
          else (case open_trades env of
                  None \<Rightarrow> None
                | Some ots \<Rightarrow>
                    if length ots \<ge> 10 then Some False
                    else if erm_total_risk ots + erm_trade_risk amount rate
                              > total_stake * erm_max_total_risk cfg then Some False
                    else (case analyzed_dataframe env pr of
                            None \<Rightarrow> None
                          | Some df \<Rightarrow>
                              if df = [] then Some False
                              else if candle_get (last df) ''bb_width'' 0 > 25 / 100
                                then Some False
                              else if candle_get (last df) ''volume_ratio'' 0 < 5 / 10
                                then Some False
                              else Some True)))"

text \<open>\<open>except Exception: return False\<close>\<close>

definition erm_confirm_trade_entry ::
  "erm_config \<Rightarrow> environment \<Rightarrow> string \<Rightarrow> real \<Rightarrow> real \<Rightarrow> bool" where
  "erm_confirm_trade_entry cfg env pr amount rate =
     (case erm_confirm_trade_entry_body cfg env pr amount rate of
        None \<Rightarrow> False
      | Some b \<Rightarrow> b)"

subsection \<open>\<open>custom_stoploss\<close>\<close>

text \<open>
  The body inside \<open>try\<close>. \<open>current_time\<close> and \<open>open_date_utc\<close> are in seconds, so
  \<open>total_seconds() / 3600\<close> is the difference divided by 3600. An ATR read from the
  dataframe is a NumPy float, the default \<open>current_rate * 0.02\<close> a Python float; the two
  differ in the division by a zero \<open>current_rate\<close>. With the Python default the quotient
  is \<open>0.0 / 0.0\<close>, which raises \<open>ZeroDivisionError\<close>. With a positive NumPy ATR it is
  plus infinity, which \<open>min(..., 0.15)\<close> caps at 0.15. With a zero or negative NumPy ATR
  it is NaN or minus infinity and the method returns NaN or plus infinity; no real number
  stands for these two results, and the body is \<open>None\<close> for them as well.
\<close>

definition erm_custom_stoploss_body ::
  "erm_config \<Rightarrow> environment \<Rightarrow> string \<Rightarrow> trade \<Rightarrow> real \<Rightarrow> real \<Rightarrow> real \<Rightarrow> real option" where
  "erm_custom_stoploss_body cfg env pr trade current_time current_rate current_profit =
     (case analyzed_dataframe env pr of
        None \<Rightarrow> None
      | Some df \<Rightarrow>
          if df = [] then Some (erm_stoploss cfg)
          else
            let atr = candle_get (last df) ''atr'' (current_rate * (2 / 100));
                trade_duration = (current_time - open_date_utc trade) / 3600;
                time_factor = max (5 / 10) (1 - trade_duration / 48);
                atr_multiplier = 25 / 10;
                capped_stop_distance =
                  (if current_rate \<noteq> 0
                   then Some (min ((atr * atr_multiplier) / current_rate) (15 / 100))
                   else (case (last df) ''atr'' of
                           None \<Rightarrow> None
                         | Some a \<Rightarrow> if a > 0 then Some (15 / 100) else None))
            in (case capped_stop_distance of
                  None \<Rightarrow> None
                | Some capped \<Rightarrow>
                    let volatility_stop = - capped;
                        dynamic_stop =
                          (if current_profit > 5 / 100
                           then let trailing_factor = max (5 / 10) (1 - current_profit * 2)
                                in max (volatility_stop * trailing_factor) (- (3 / 100))
                           else volatility_stop * time_factor);
                        final_stop = max dynamic_stop (erm_stoploss cfg)
                    in Some final_stop))"

text \<open>\<open>except Exception: return self.stoploss\<close>\<close>

definition erm_custom_stoploss ::
  "erm_config \<Rightarrow> environment \<Rightarrow> string \<Rightarrow> trade \<Rightarrow> real \<Rightarrow> real \<Rightarrow> real \<Rightarrow> real" where
  "erm_custom_stoploss cfg env pr trade current_time current_rate current_profit =
     (case erm_custom_stoploss_body cfg env pr trade current_time current_rate current_profit of
        None \<Rightarrow> erm_stoploss cfg
      | Some s \<Rightarrow> s)"

text \<open>
  The local \<open>volatility_stop\<close> of \<open>custom_stoploss\<close>, as computed from the last candle
  and a non-zero \<open>current_rate\<close>.
\<close>

definition erm_volatility_stop :: "dataframe \<Rightarrow> real \<Rightarrow> real" where
  "erm_volatility_stop df current_rate =
     - min ((candle_get (last df) ''atr'' (current_rate * (2 / 100)) * (25 / 10)) / current_rate)
           (15 / 100)"

subsection \<open>\<open>confirm_trade_exit\<close>\<close>

text \<open>
  The body inside \<open>try\<close>. Python's \<open>and\<close> evaluates \<open>trade.calc_profit_ratio(rate)\<close>
  only when the reason is \<open>roi\<close> or \<open>exit_signal\<close>. With an empty dataframe control falls
  through to the final \<open>return True\<close>.
\<close>

definition erm_confirm_trade_exit_body ::
  "environment \<Rightarrow> string \<Rightarrow> trade \<Rightarrow> real \<Rightarrow> string \<Rightarrow> bool option" where
  "erm_confirm_trade_exit_body env pr trade rate exit_reason =
     (if exit_reason \<in> set [''stop_loss'', ''stoploss_on_exchange'', ''emergency_exit'']
      then Some True
      else if exit_reason \<in> set [''roi'', ''exit_signal'']
      then (case calc_profit_ratio env trade rate of
              None \<Rightarrow> None
            | Some profit \<Rightarrow>
                if profit < 2 / 100
                then (case analyzed_dataframe env pr of
                        None \<Rightarrow> None
                      | Some df \<Rightarrow>
                          if df \<noteq> []
                          then (if candle_get (last df) ''rsi'' 50 > 80
                                   \<or> candle_get (last df) ''bb_width'' 0 > 20 / 100
                                then Some True
                                else Some False)
                          else Some True)
                else Some True)
      else Some True)"

text \<open>\<open>except Exception: return True\<close>\<close>

definition erm_confirm_trade_exit ::
  "environment \<Rightarrow> string \<Rightarrow> trade \<Rightarrow> real \<Rightarrow> string \<Rightarrow> bool" where
  "erm_confirm_trade_exit env pr trade rate exit_reason =
     (case erm_confirm_trade_exit_body env pr trade rate exit_reason of
        None \<Rightarrow> True
      | Some b \<Rightarrow> b)"

subsection \<open>The two definitions of \<open>custom_stake_amount\<close>\<close>

text \<open>
  The first definition (source line 151): volatility-scaled, risk-budgeted sizing.
  \<open>min_stake\<close> is \<open>Optional[float]\<close>; \<open>entry_tag\<close> is \<open>Optional[str]\<close>. Values read from
  the dataframe are NumPy floats, for which a division by zero gives an infinity or NaN
  instead of raising; the defaults \<open>0.02\<close> and \<open>current_rate * 0.02\<close> are Python floats.
\<close>

definition erm_open_trades_risk :: "string \<Rightarrow> trade list \<Rightarrow> real" where
  "erm_open_trades_risk pr ts =
     sum_list (map (\<lambda>t. \<bar>stake_amount t * or_default (stop_loss_pct t) (8 / 100)\<bar>)
                   (filter (\<lambda>t. pair t \<noteq> pr) ts))"

text \<open>
  \<open>volatility_multiplier = max(0.5, min(2.0, 1 / (1 + volatility * 10)))\<close>. The divisor is
  zero only for a volatility of \<open>-0.1\<close> read from the dataframe; the quotient is then plus
  infinity and the multiplier \<open>2.0\<close>.
\<close>

definition erm_volatility_multiplier :: "real \<Rightarrow> real" where
  "erm_volatility_multiplier volatility =
     (if 1 + volatility * 10 = 0 then 2
      else max (5 / 10) (min 2 (1 / (1 + volatility * 10))))"

text \<open>
  \<open>risk_based_stake = max_trade_risk / (stop_distance / current_rate)\<close>, for a positive
  \<open>max_trade_risk\<close>. The value is a number, or plus infinity or NaN (either leaves
  \<open>min(adjusted_stake, risk_based_stake)\<close> at \<open>adjusted_stake\<close>), or minus infinity.
  \<^item> Zero rate, ATR defaulted: \<open>0.0 / 0.0\<close> on Python floats raises (\<open>None\<close>).
  \<^item> Zero rate, ATR from the dataframe: the inner quotient is NaN for a zero ATR and an
    infinity otherwise, so the stake is NaN or zero.
  \<^item> Non-zero rate, zero ATR (necessarily from the dataframe): the inner quotient is a
    zero with the sign of the rate, so the stake is plus or minus infinity.
\<close>

datatype risk_based = Finite real | Inf_or_NaN | Neg_inf

definition erm_risk_based_stake :: "candle \<Rightarrow> real \<Rightarrow> real \<Rightarrow> risk_based option" where
  "erm_risk_based_stake c current_rate max_trade_risk =
     (let atr = candle_get c ''atr'' (current_rate * (2 / 100));
          stop_distance = atr * 2
      in if current_rate = 0
         then (case c ''atr'' of
                 None \<Rightarrow> None
               | Some a \<Rightarrow> if a = 0 then Some Inf_or_NaN else Some (Finite 0))
         else if stop_distance / current_rate = 0
         then (if current_rate > 0 then Some Inf_or_NaN else Some Neg_inf)
         else Some (Finite (max_trade_risk / (stop_distance / current_rate))))"

definition erm_custom_stake_amount_151_body ::
  "erm_config \<Rightarrow> environment \<Rightarrow> string \<Rightarrow> real \<Rightarrow> real \<Rightarrow> real option \<Rightarrow> real
     \<Rightarrow> string option \<Rightarrow> real option" where
  "erm_custom_stake_amount_151_body cfg env pr current_rate proposed_stake min_stake max_stake
       entry_tag =
     (case analyzed_dataframe env pr of
        None \<Rightarrow> None
      | Some df \<Rightarrow>
          if df = [] then Some proposed_stake
          else
            let volatility = candle_get (last df) ''price_volatility'' (2 / 100);
                volatility_multiplier = erm_volatility_multiplier volatility
            in (case total_stake_amount env of
                  None \<Rightarrow> None
                | Some total_stake \<Rightarrow>
                    if total_stake \<le> 0 then Some (or_default min_stake proposed_stake)
                    else
                      (case open_trades env of
                         None \<Rightarrow> None
                       | Some ots \<Rightarrow>
                           let open_trades_risk = erm_open_trades_risk pr ots;
                               remaining_risk_budget =
                                 total_stake * erm_max_total_risk cfg - open_trades_risk;
                               max_trade_risk =
                                 min (total_stake * erm_risk_per_trade cfg)
                                     remaining_risk_budget
                           in if max_trade_risk \<le> 0
                              then Some (or_default min_stake (proposed_stake * (1 / 10)))
                              else
                                let base_stake = total_stake * erm_base_stake_percent cfg;
                                    adjusted_stake =
                                      base_stake * volatility_multiplier
                                        * erm_volatility_factor cfg;
                                    max_allowed_stake = total_stake * erm_max_stake_percent cfg
                                in (case erm_risk_based_stake (last df) current_rate
                                           max_trade_risk of
                                      None \<Rightarrow> None
                                    | Some risk_based_stake \<Rightarrow>
                                        let optimal_stake' =
                                              (case risk_based_stake of
                                                 Finite r \<Rightarrow>
                                                   max (or_default min_stake 0)
                                                       (min (min adjusted_stake r)
                                                            (min max_allowed_stake max_stake))
                                               | Inf_or_NaN \<Rightarrow>
                                                   max (or_default min_stake 0)
                                                       (min adjusted_stake
                                                            (min max_allowed_stake max_stake))
                                               | Neg_inf \<Rightarrow> or_default min_stake 0)
                                        in Some (if erm_enable_dca cfg \<and> entry_tag \<noteq> Some ''dca''
                                                 then optimal_stake' * (7 / 10)
                                                 else optimal_stake')))))"

text \<open>\<open>except Exception: return min_stake or (proposed_stake * 0.5)\<close>\<close>

definition erm_custom_stake_amount_151 ::
  "erm_config \<Rightarrow> environment \<Rightarrow> string \<Rightarrow> real \<Rightarrow> real \<Rightarrow> real option \<Rightarrow> real
     \<Rightarrow> string option \<Rightarrow> real" where
  "erm_custom_stake_amount_151 cfg env pr current_rate proposed_stake min_stake max_stake
       entry_tag =
     (case erm_custom_stake_amount_151_body cfg env pr current_rate proposed_stake min_stake
             max_stake entry_tag of
        None \<Rightarrow> or_default min_stake (proposed_stake * (5 / 10))
      | Some s \<Rightarrow> s)"

text \<open>
  The second definition (source line 530) reads the process environment and two JSON
  files. A file is absent, or opening and parsing it raises, or it yields a document; the
  documents are modelled by the keys the method reads: the truthiness of \<open>enabled\<close> (a
  missing key is \<open>False\<close>), \<open>riskPerTrade\<close> (optional) and \<open>pairMultipliers\<close>.
  \<open>balance_base\<close> is \<open>self.dp.get_balance_base()\<close>: the outer \<open>None\<close> is a raising call,
  the inner one the value \<open>None\<close>.
\<close>

datatype 'a json_file = Absent | Unreadable | Document 'a

record risk_config =
  riskPerTrade :: "real option"
  pairMultipliers :: "string \<rightharpoonup> real"

record host =
  environ :: "string \<rightharpoonup> string"
  settings_files :: "string \<Rightarrow> bool json_file"
  risk_config_files :: "string \<Rightarrow> risk_config json_file"
  balance_base :: "real option option"

text \<open>\<open>os.environ.get(key, 'unknown')\<close>\<close>

definition environ_get :: "host \<Rightarrow> string \<Rightarrow> string" where
  "environ_get h k = (case environ h k of None \<Rightarrow> ''unknown'' | Some v \<Rightarrow> v)"

definition base_path :: "string \<Rightarrow> string \<Rightarrow> string" where
  "base_path user_id bot_instance_id =
     ''/home/ubuntu/Workspace/crypto-trading-platform/data/freqtrade-instances/''
       @ user_id @ ''/'' @ bot_instance_id"

definition settings_path :: "string \<Rightarrow> string \<Rightarrow> string" where
  "settings_path user_id bot_instance_id =
     base_path user_id bot_instance_id @ ''/universal-settings.json''"

definition risk_config_path :: "string \<Rightarrow> string \<Rightarrow> string" where
  "risk_config_path user_id bot_instance_id =
     base_path user_id bot_instance_id @ ''/risk-config.json''"

text \<open>
  The sizing once both documents are loaded and the settings are enabled; \<open>None\<close> when
  the balance is falsy or not positive, where control falls through to the fallback.
\<close>

definition universal_position_size ::
  "risk_config \<Rightarrow> real option \<Rightarrow> string \<Rightarrow> real option \<Rightarrow> real \<Rightarrow> real option" where
  "universal_position_size rc account_balance pr min_stake max_stake =
     (case account_balance of
        None \<Rightarrow> None
      | Some b \<Rightarrow>
          if b \<noteq> 0 \<and> b > 0
          then
            let risk_per_trade = (case riskPerTrade rc of None \<Rightarrow> 1 / 100 | Some r \<Rightarrow> r);
                position_size = b * risk_per_trade;
                multiplier = (case pairMultipliers rc pr of None \<Rightarrow> 1 | Some m \<Rightarrow> m);
                position_size' = position_size * multiplier;
                position_size'' =
                  (case min_stake of
                     None \<Rightarrow> position_size'
                   | Some m \<Rightarrow> if m = 0 then position_size' else max position_size' m)
            in Some (min position_size'' max_stake)
          else None)"

text \<open>The body inside \<open>try\<close>; \<open>None\<close> when it raised.\<close>

definition erm_custom_stake_amount_530_body ::
  "host \<Rightarrow> string \<Rightarrow> real \<Rightarrow> real option \<Rightarrow> real \<Rightarrow> real option" where
  "erm_custom_stake_amount_530_body h pr proposed_stake min_stake max_stake =
     (let bot_instance_id = environ_get h ''BOT_INSTANCE_ID'';
          user_id = environ_get h ''USER_ID''
      in if bot_instance_id \<noteq> ''unknown'' \<and> user_id \<noteq> ''unknown''
         then
           (if settings_files h (settings_path user_id bot_instance_id) \<noteq> Absent
               \<and> risk_config_files h (risk_config_path user_id bot_instance_id) \<noteq> Absent
            then
              (case settings_files h (settings_path user_id bot_instance_id) of
                 Absent \<Rightarrow> None
               | Unreadable \<Rightarrow> None
               | Document enabled \<Rightarrow>
                   if enabled
                   then
                     (case risk_config_files h (risk_config_path user_id bot_instance_id) of
                        Absent \<Rightarrow> None
                      | Unreadable \<Rightarrow> None
                      | Document rc \<Rightarrow>
                          (case balance_base h of
                             None \<Rightarrow> None
                           | Some account_balance \<Rightarrow>
                               (case universal_position_size rc account_balance pr min_stake
                                       max_stake of
                                  None \<Rightarrow> Some proposed_stake
                                | Some position_size \<Rightarrow> Some position_size)))
                   else Some proposed_stake)
            else Some proposed_stake)
         else Some proposed_stake)"

text \<open>\<open>except Exception: return proposed_stake\<close>\<close>

definition erm_custom_stake_amount_530 ::
  "host \<Rightarrow> string \<Rightarrow> real \<Rightarrow> real option \<Rightarrow> real \<Rightarrow> real" where
  "erm_custom_stake_amount_530 h pr proposed_stake min_stake max_stake =
     (case erm_custom_stake_amount_530_body h pr proposed_stake min_stake max_stake of
        None \<Rightarrow> proposed_stake
      | Some s \<Rightarrow> s)"

text \<open>
  The class body binds its method names in source order, each \<open>def\<close> to the source line
  where it starts; executing a \<open>def\<close> whose name is already bound rebinds the name.
  The class namespace is what the bindings leave, and a call through the class looks the
  name up there.
\<close>

definition erm_class_body :: "(string \<times> nat) list" where
  "erm_class_body =
     [(''informative_pairs'', 105), (''populate_indicators'', 109),
      (''custom_stake_amount'', 151), (''populate_entry_trend'', 228),
      (''populate_exit_trend'', 281), (''custom_stoploss'', 326),
      (''check_dca_conditions'', 374), (''adjust_trade_position'', 400),
      (''leverage'', 437), (''confirm_trade_entry'', 449),
      (''confirm_trade_exit'', 499), (''custom_stake_amount'', 530)]"

definition class_namespace :: "(string \<times> nat) list \<Rightarrow> (string \<rightharpoonup> nat)" where
  "class_namespace body = foldl (\<lambda>ns (name, line). ns(name \<mapsto> line)) Map.empty body"

text \<open>
  \<open>strategy.custom_stake_amount(...)\<close>: the call goes to whichever definition the name
  is bound to. \<open>None\<close> stands for \<open>AttributeError\<close>.
\<close>

definition erm_custom_stake_amount ::
  "erm_config \<Rightarrow> environment \<Rightarrow> host \<Rightarrow> string \<Rightarrow> real \<Rightarrow> real \<Rightarrow> real option \<Rightarrow> real
     \<Rightarrow> string option \<Rightarrow> real option" where
  "erm_custom_stake_amount cfg env h pr current_rate proposed_stake min_stake max_stake
       entry_tag =
     (case class_namespace erm_class_body ''custom_stake_amount'' of
        None \<Rightarrow> None
      | Some line \<Rightarrow>
          if line = 151
          then Some (erm_custom_stake_amount_151 cfg env pr current_rate proposed_stake
                       min_stake max_stake entry_tag)
          else if line = 530
          then Some (erm_custom_stake_amount_530 h pr proposed_stake min_stake max_stake)
          else None)"

section \<open>DCAStrategy\<close>

record dca_config =
  dca_stoploss :: real
  dca_enabled :: bool
  dca_level_1 :: real
  dca_level_2 :: real
  dca_level_3 :: real
  dca_level_4 :: real
  dca_size_multiplier_1 :: real
  dca_size_multiplier_2 :: real
  dca_size_multiplier_3 :: real
  dca_size_multiplier_4 :: real
  base_position_size :: real
  max_total_allocation :: real
  min_time_between_entries :: int

text \<open>Python's \<open>sub in s\<close> on strings, and \<open>order.ft_order_tag or ''\<close>.\<close>

definition str_in :: "string \<Rightarrow> string \<Rightarrow> bool" where
  "str_in sub s = sublist sub s"

definition tag_or_empty :: "order \<Rightarrow> string" where
  "tag_or_empty o' = (case ft_order_tag o' of None \<Rightarrow> [] | Some t \<Rightarrow> t)"

text \<open>\<open>str(level)\<close> for a non-negative level, as decimal digits.\<close>

definition digit_char :: "nat \<Rightarrow> char" where
  "digit_char d = ''0123456789'' ! d"

function str_nat :: "nat \<Rightarrow> string" where
  "str_nat n = (if n < 10 then [digit_char n] else str_nat (n div 10) @ [digit_char (n mod 10)])"
  by pat_completeness auto
termination
  by (relation "measure id") auto

declare str_nat.simps [simp del]

text \<open>
  \<open>check_dca_timing\<close>: \<open>max\<close> over the orders that have a date raises \<open>ValueError\<close> when
  there is none; the method has no handler of its own, so \<open>None\<close> is the exception.
\<close>

definition order_dates :: "trade \<Rightarrow> real list" where
  "order_dates trade = concat (map (\<lambda>o'. case order_date o' of None \<Rightarrow> [] | Some d \<Rightarrow> [d])
                                   (orders trade))"

definition check_dca_timing :: "dca_config \<Rightarrow> trade \<Rightarrow> real \<Rightarrow> bool option" where
  "check_dca_timing cfg trade current_time =
     (if orders trade = [] then Some True
      else if order_dates trade = [] then None
      else
        let last_order_time = Max (set (order_dates trade));
            time_diff = (current_time - last_order_time) / 3600
        in Some (time_diff \<ge> real_of_int (min_time_between_entries cfg)))"

text \<open>\<open>check_position_limits\<close>, with its own \<open>except Exception: return False\<close>.\<close>

definition current_position_value :: "trade \<Rightarrow> real" where
  "current_position_value trade =
     foldl (\<lambda>v o'. if status o' = ''open'' \<and> str_in ''dca'' (tag_or_empty o')
                    then v + safe_remaining o' * safe_price o' else v)
           (stake_amount trade) (orders trade)"

definition check_position_limits :: "dca_config \<Rightarrow> environment \<Rightarrow> trade \<Rightarrow> bool" where
  "check_position_limits cfg env trade =
     (case total_stake_amount env of
        None \<Rightarrow> False
      | Some total_stake \<Rightarrow>
          if total_stake \<le> 0 then False
          else
            let current_allocation = current_position_value trade / total_stake
            in if current_allocation \<ge> max_total_allocation cfg then False else True)"

text \<open>
  \<open>get_dca_level_and_size\<close>, with its own \<open>except Exception: return None, None\<close>; the
  pair \<open>(None, None)\<close> is \<open>None\<close> here.
\<close>

definition get_dca_level_and_size ::
  "dca_config \<Rightarrow> environment \<Rightarrow> real \<Rightarrow> (nat \<times> real) option" where
  "get_dca_level_and_size cfg env current_profit =
     (case total_stake_amount env of
        None \<Rightarrow> None
      | Some total_stake \<Rightarrow>
          let levelled =
                (if current_profit \<le> dca_level_4 cfg
                 then Some (4, total_stake * base_position_size cfg * dca_size_multiplier_4 cfg)
                 else if current_profit \<le> dca_level_3 cfg
                 then Some (3, total_stake * base_position_size cfg * dca_size_multiplier_3 cfg)
                 else if current_profit \<le> dca_level_2 cfg
                 then Some (2, total_stake * base_position_size cfg * dca_size_multiplier_2 cfg)
                 else if current_profit \<le> dca_level_1 cfg
                 then Some (1, total_stake * base_position_size cfg * dca_size_multiplier_1 cfg)
                 else None)
          in (case levelled of
                None \<Rightarrow> None
              | Some (level, size') \<Rightarrow>
                  let max_dca_size = total_stake * (15 / 100)
                  in Some (level, min size' max_dca_size)))"

text \<open>\<open>was_dca_level_triggered\<close>: the tag searched for is \<open>f'dca_{level}'\<close>.\<close>

definition was_dca_level_triggered :: "trade \<Rightarrow> nat \<Rightarrow> bool" where
  "was_dca_level_triggered trade level =
     (let dca_tag = ''dca_'' @ str_nat level
      in list_ex (\<lambda>o'. str_in dca_tag (tag_or_empty o')) (orders trade))"

text \<open>
  \<open>adjust_trade_position\<close>. The source returns \<open>dca_size\<close> only; the level it selected
  is kept beside it here so that properties can name it. The outer \<open>None\<close> is an exception
  inside \<open>try\<close>, the inner one the Python result \<open>None\<close>.
\<close>

definition adjust_trade_position_body ::
  "dca_config \<Rightarrow> environment \<Rightarrow> trade \<Rightarrow> real \<Rightarrow> real \<Rightarrow> (nat \<times> real) option option" where
  "adjust_trade_position_body cfg env trade current_time current_profit =
     (case check_dca_timing cfg trade current_time of
        None \<Rightarrow> None
      | Some timing_ok \<Rightarrow>
          if \<not> timing_ok then Some None
          else if \<not> check_position_limits cfg env trade then Some None
          else (case get_dca_level_and_size cfg env current_profit of
                  None \<Rightarrow> Some None
                | Some (dca_level, dca_size) \<Rightarrow>
                    if was_dca_level_triggered trade dca_level then Some None
                    else Some (Some (dca_level, dca_size))))"

text \<open>\<open>except Exception: return None\<close>, after the \<open>dca_enabled\<close> test outside \<open>try\<close>.\<close>

definition adjust_trade_position_level ::
  "dca_config \<Rightarrow> environment \<Rightarrow> trade \<Rightarrow> real \<Rightarrow> real \<Rightarrow> (nat \<times> real) option" where
  "adjust_trade_position_level cfg env trade current_time current_profit =
     (if \<not> dca_enabled cfg then None
      else (case adjust_trade_position_body cfg env trade current_time current_profit of
              None \<Rightarrow> None
            | Some r \<Rightarrow> r))"

definition adjust_trade_position ::
  "dca_config \<Rightarrow> environment \<Rightarrow> trade \<Rightarrow> real \<Rightarrow> real \<Rightarrow> real option" where
  "adjust_trade_position cfg env trade current_time current_profit =
     map_option snd (adjust_trade_position_level cfg env trade current_time current_profit)"

text \<open>\<open>custom_stoploss\<close> of DCAStrategy; nothing in its body can raise.\<close>

definition dca_custom_stoploss :: "dca_config \<Rightarrow> trade \<Rightarrow> real \<Rightarrow> real" where
  "dca_custom_stoploss cfg trade current_profit =
     (let dca_orders = length (filter (\<lambda>o'. str_in ''dca'' (tag_or_empty o')) (orders trade));
          dca_adjustment = min (4 / 100) (real dca_orders * (1 / 100));
          adjusted_stop = dca_stoploss cfg - dca_adjustment;
          final_stop = max adjusted_stop (- (25 / 100))
      in if current_profit > 5 / 100
         then
           let profit_factor = min (current_profit / (2 / 10)) 1;
               trailing_stop = - (2 / 100) - (3 / 100) * (1 - profit_factor)
           in max final_stop trailing_stop
         else final_stop)"

section \<open>PortfolioRebalancingStrategy\<close>

datatype category = BTC | ETH | ALT | STABLE | OTHER

record prs_config =
  target_btc_allocation :: real
  target_eth_allocation :: real
  target_alt_allocation :: real
  target_stable_allocation :: real
  target_other_allocation :: real
  rebalance_threshold :: real
  min_rebalance_amount :: real

definition ASSET_CATEGORIES :: "(string \<times> category) list" where
  "ASSET_CATEGORIES =
     [(''BTC/USD'', BTC), (''BTC/USDT'', BTC), (''ETH/USD'', ETH), (''ETH/USDT'', ETH),
      (''ADA/USD'', ALT), (''ADA/USDT'', ALT), (''SOL/USD'', ALT), (''SOL/USDT'', ALT),
      (''DOT/USD'', ALT), (''DOT/USDT'', ALT), (''ALGO/USD'', ALT), (''ALGO/USDT'', ALT),
      (''MATIC/USD'', ALT), (''MATIC/USDT'', ALT), (''USDC/USD'', STABLE),
      (''USDT/USD'', STABLE)]"

text \<open>\<open>self.ASSET_CATEGORIES.get(pair, 'other')\<close>\<close>

definition get_asset_category :: "string \<Rightarrow> category" where
  "get_asset_category pr = (case map_of ASSET_CATEGORIES pr of None \<Rightarrow> OTHER | Some c \<Rightarrow> c)"

definition get_target_allocation :: "prs_config \<Rightarrow> category \<Rightarrow> real" where
  "get_target_allocation cfg c =
     (case c of
        BTC \<Rightarrow> target_btc_allocation cfg
      | ETH \<Rightarrow> target_eth_allocation cfg
      | ALT \<Rightarrow> target_alt_allocation cfg
      | STABLE \<Rightarrow> target_stable_allocation cfg
      | OTHER \<Rightarrow> target_other_allocation cfg)"

text \<open>
  \<open>calculate_current_allocations\<close>. The dictionary over the five categories is a
  function on \<open>category\<close>. The loop over the open trades adds each stake to its category
  and to the total.
\<close>

fun add_trade_values ::
  "trade list \<Rightarrow> (category \<Rightarrow> real) \<times> real \<Rightarrow> (category \<Rightarrow> real) \<times> real" where
  "add_trade_values [] acc = acc"
| "add_trade_values (t # ts) (allocations, total_value) =
     add_trade_values ts
       (allocations(get_asset_category (pair t) :=
                      allocations (get_asset_category (pair t)) + stake_amount t),
        total_value + stake_amount t)"

definition calculate_current_allocations_body ::
  "environment \<Rightarrow> ((category \<Rightarrow> real) \<times> real) option" where
  "calculate_current_allocations_body env =
     (case open_trades env of
        None \<Rightarrow> None
      | Some ots \<Rightarrow>
          (case add_trade_values ots (\<lambda>c. 0, 0) of
             (allocations, total_value) \<Rightarrow>
               (case total_stake_amount env of
                  None \<Rightarrow> None
                | Some wallet \<Rightarrow>
                    let available_balance = wallet - total_value;
                        allocations' =
                          (if available_balance > 0
                           then allocations(STABLE := allocations STABLE + available_balance)
                           else allocations);
                        total_value' =
                          (if available_balance > 0 then total_value + available_balance
                           else total_value)
                    in Some (if total_value' > 0
                             then (\<lambda>c. allocations' c / total_value', total_value')
                             else (allocations', total_value')))))"

text \<open>\<open>except Exception:\<close> all allocations zero and total value zero.\<close>

definition calculate_current_allocations :: "environment \<Rightarrow> (category \<Rightarrow> real) \<times> real" where
  "calculate_current_allocations env =
     (case calculate_current_allocations_body env of
        None \<Rightarrow> (\<lambda>c. 0, 0)
      | Some r \<Rightarrow> r)"

text \<open>
  \<open>needs_rebalancing\<close> returns the flag, the position change and a reason. The reason
  is a formatted message in the source; here it is its kind with the numbers it shows.
  Nothing in the body raises once \<open>calculate_current_allocations\<close> has caught its own
  exceptions.
\<close>

datatype reason =
    No_target_allocation
  | Change_too_small real
  | Drift_and_change real real
  | Within_threshold real

definition needs_rebalancing :: "prs_config \<Rightarrow> environment \<Rightarrow> string \<Rightarrow> bool \<times> real \<times> reason" where
  "needs_rebalancing cfg env pr =
     (let category = get_asset_category pr;
          target_allocation = get_target_allocation cfg category
      in if target_allocation = 0 then (False, 0, No_target_allocation)
         else
           (case calculate_current_allocations env of
              (current_allocations, total_value) \<Rightarrow>
                let current_allocation = current_allocations category;
                    allocation_drift = \<bar>current_allocation - target_allocation\<bar>;
                    needs_rebalance = (allocation_drift > rebalance_threshold cfg)
                in if needs_rebalance
                   then
                     let target_value = total_value * target_allocation;
                         current_value = total_value * current_allocation;
                         position_change = target_value - current_value
                     in if \<bar>position_change\<bar> < min_rebalance_amount cfg
                        then (False, position_change, Change_too_small position_change)
                        else (True, position_change,
                              Drift_and_change allocation_drift position_change)
                   else (False, 0, Within_threshold allocation_drift)))"

text \<open>\<open>confirm_trade_exit\<close> of PortfolioRebalancingStrategy: body and handler.\<close>

definition prs_confirm_trade_exit_body ::
  "prs_config \<Rightarrow> environment \<Rightarrow> string \<Rightarrow> trade \<Rightarrow> real \<Rightarrow> string \<Rightarrow> bool option" where
  "prs_confirm_trade_exit_body cfg env pr trade rate exit_reason =
     (if exit_reason \<in> set [''stop_loss'', ''roi'', ''force_exit''] then Some True
      else if exit_reason = ''exit_signal''
      then (case needs_rebalancing cfg env pr of
              (needs_rebalance, position_change, _) \<Rightarrow>
                if needs_rebalance \<and> position_change < 0 then Some True
                else (case calc_profit_ratio env trade rate of
                        None \<Rightarrow> None
                      | Some profit \<Rightarrow> if profit > 15 / 100 then Some True else Some False))
      else Some True)"

definition prs_confirm_trade_exit ::
  "prs_config \<Rightarrow> environment \<Rightarrow> string \<Rightarrow> trade \<Rightarrow> real \<Rightarrow> string \<Rightarrow> bool" where
  "prs_confirm_trade_exit cfg env pr trade rate exit_reason =
     (case prs_confirm_trade_exit_body cfg env pr trade rate exit_reason of
        None \<Rightarrow> True
      | Some b \<Rightarrow> b)"

section \<open>HighFrequencyScalp1m\<close>

text \<open>\<open>custom_stoploss\<close>: the placeholder \<open>1\<close> below one percent profit, else the clamp.\<close>

definition hfs_custom_stoploss :: "real \<Rightarrow> real" where
  "hfs_custom_stoploss current_profit =
     (if current_profit < 1 / 100 then 1
      else
        let desired_stop = current_profit / 2;
            min_stop = 25 / 10000;
            max_stop = 5 / 100;
            new_stop = max (min desired_stop max_stop) min_stop
        in new_stop)"

section \<open>AggressiveSophisticated1m\<close>

text \<open>
  The regime filter of \<open>populate_indicators\<close>, on one row. An indicator value is \<open>None\<close>
  where the column holds NaN (the warm-up rows); a comparison with NaN is false. The
  source writes the codes with three assignments in sequence, each overwriting the rows its
  mask selects: \<open>0\<close> Uncertain, \<open>1\<close> Uptrend, \<open>2\<close> Downtrend, \<open>3\<close> Range.
\<close>

record agg_config =
  adx_trend_threshold :: int
  adx_range_threshold :: int

record snapshot =
  adx :: "real option"
  plus_di :: "real option"
  minus_di :: "real option"
  regime :: nat

definition nan_gt :: "real option \<Rightarrow> real option \<Rightarrow> bool" where
  "nan_gt a b = (case a of None \<Rightarrow> False
                 | Some x \<Rightarrow> (case b of None \<Rightarrow> False | Some y \<Rightarrow> x > y))"

definition nan_lt :: "real option \<Rightarrow> real option \<Rightarrow> bool" where
  "nan_lt a b = nan_gt b a"

definition populate_regime :: "agg_config \<Rightarrow> snapshot \<Rightarrow> snapshot" where
  "populate_regime cfg row =
     (let is_trending = nan_gt (adx row) (Some (real_of_int (adx_trend_threshold cfg)));
          is_ranging = nan_lt (adx row) (Some (real_of_int (adx_range_threshold cfg)));
          row0 = row\<lparr>regime := 0\<rparr>;
          row1 = (if is_trending \<and> nan_gt (plus_di row0) (minus_di row0)
                  then row0\<lparr>regime := 1\<rparr> else row0);
          row2 = (if is_trending \<and> nan_gt (minus_di row1) (plus_di row1)
                  then row1\<lparr>regime := 2\<rparr> else row1);
          row3 = (if is_ranging then row2\<lparr>regime := 3\<rparr> else row2)
      in row3)"

datatype regime_label = Uncertain | Uptrend | Downtrend | Range

definition regime_label_of :: "nat \<Rightarrow> regime_label" where
  "regime_label_of code =
     (if code = 1 then Uptrend else if code = 2 then Downtrend
      else if code = 3 then Range else Uncertain)"

definition classify :: "agg_config \<Rightarrow> snapshot \<Rightarrow> regime_label" where
  "classify cfg row = regime_label_of (regime (populate_regime cfg row))"

text \<open>Concrete inputs used to exercise the definitions.\<close>

definition erm_default :: erm_config where
  "erm_default = \<lparr> erm_stoploss = - (8 / 100), erm_base_stake_percent = 10 / 100,
     erm_max_stake_percent = 25 / 100, erm_volatility_factor = 1,
     erm_max_total_risk = 25 / 100, erm_risk_per_trade = 2 / 100,
     erm_enable_dca = True \<rparr>"

definition mk_trade :: "string \<Rightarrow> real \<Rightarrow> trade" where
  "mk_trade p s = \<lparr> pair = p, stake_amount = s, stop_loss_pct = None,
     open_date_utc = 0, open_rate = 100, is_short = False, orders = [] \<rparr>"

definition calm_candle :: candle where
  "calm_candle = [''bb_width'' \<mapsto> 10 / 100, ''volume_ratio'' \<mapsto> 1, ''rsi'' \<mapsto> 50]"

definition mk_env :: "real \<Rightarrow> trade list \<Rightarrow> environment" where
  "mk_env w ts = \<lparr> total_stake_amount = Some w, open_trades = Some ts,
     analyzed_dataframe = (\<lambda>p. Some [calm_candle]),
     calc_profit_ratio = (\<lambda>t r. Some ((r - open_rate t) / open_rate t)) \<rparr>"

definition prs_default :: prs_config where
  "prs_default = \<lparr> target_btc_allocation = 40 / 100, target_eth_allocation = 25 / 100,
     target_alt_allocation = 20 / 100, target_stable_allocation = 10 / 100,
     target_other_allocation = 5 / 100, rebalance_threshold = 15 / 100,
     min_rebalance_amount = 100 \<rparr>"

definition agg_default :: agg_config where
  "agg_default = \<lparr> adx_trend_threshold = 25, adx_range_threshold = 20 \<rparr>"

definition agg_overlapping :: agg_config where
  "agg_overlapping = \<lparr> adx_trend_threshold = 20, adx_range_threshold = 25 \<rparr>"

definition mk_snapshot :: "real \<Rightarrow> real \<Rightarrow> real \<Rightarrow> snapshot" where
  "mk_snapshot a p m = \<lparr> adx = Some a, plus_di = Some p, minus_di = Some m, regime = 0 \<rparr>"

definition dca_default :: dca_config where
  "dca_default = \<lparr> dca_stoploss = - (12 / 100), dca_enabled = True,
     dca_level_1 = - (5 / 100), dca_level_2 = - (10 / 100), dca_level_3 = - (18 / 100),
     dca_level_4 = - (28 / 100), dca_size_multiplier_1 = 12 / 10,
     dca_size_multiplier_2 = 15 / 10, dca_size_multiplier_3 = 2,
     dca_size_multiplier_4 = 25 / 10, base_position_size = 12 / 100,
     max_total_allocation = 35 / 100, min_time_between_entries = 4 \<rparr>"

definition mk_order :: "string \<Rightarrow> real \<Rightarrow> order" where
  "mk_order tag date = \<lparr> ft_order_tag = Some tag, order_date = Some date,
     status = ''closed'', safe_remaining = 0, safe_price = 0 \<rparr>"

definition bare_host :: host where
  "bare_host = \<lparr> environ = Map.empty, settings_files = (\<lambda>p. Absent),
     risk_config_files = (\<lambda>p. Absent), balance_base = Some (Some 1000) \<rparr>"

definition atr_env :: "real \<Rightarrow> environment" where
  "atr_env a = \<lparr> total_stake_amount = Some 1000, open_trades = Some [],
     analyzed_dataframe = (\<lambda>p. Some [[''atr'' \<mapsto> a]]),
     calc_profit_ratio = (\<lambda>t r. None) \<rparr>"

definition overbought_candle :: candle where
  "overbought_candle = [''bb_width'' \<mapsto> 10 / 100, ''volume_ratio'' \<mapsto> 1, ''rsi'' \<mapsto> 95]"

definition overbought_env :: "real \<Rightarrow> trade list \<Rightarrow> environment" where
  "overbought_env w ts = \<lparr> total_stake_amount = Some w, open_trades = Some ts,
     analyzed_dataframe = (\<lambda>p. Some [overbought_candle]),
     calc_profit_ratio = (\<lambda>t r. Some ((r - open_rate t) / open_rate t)) \<rparr>"


section \<open>Admission gate of EnhancedRiskManagedStrategy\<close>

text \<open>
  Claim C7. Whenever ten or more positions are open, \<open>confirm_trade_entry\<close> returns
  \<open>False\<close>, whatever the wallet total, the risk already reserved, the proposed amount and
  rate, and the market data are: the count is tested before the risk budget is looked at,
  and the paths that do not reach the count test (non-positive wallet total, a raising
  framework call) return \<open>False\<close> as well.
\<close>

theorem erm_confirm_trade_entry_position_count:
  assumes "open_trades env = Some ots" and "length ots \<ge> 10"
  shows "erm_confirm_trade_entry cfg env pr amount rate = False"
  using assms
  by (simp add: erm_confirm_trade_entry_def erm_confirm_trade_entry_body_def
      split: option.splits)

theorem erm_confirm_trade_entry_position_count_witness:
  "open_trades (mk_env 1000000 (replicate 10 (mk_trade ''BTC/USDT'' 1)))
     = Some (replicate 10 (mk_trade ''BTC/USDT'' 1))
   \<and> length (replicate 10 (mk_trade ''BTC/USDT'' 1)) \<ge> 10
   \<and> erm_total_risk (replicate 10 (mk_trade ''BTC/USDT'' 1)) + erm_trade_risk 1 1
        \<le> 1000000 * erm_max_total_risk erm_default
   \<and> erm_confirm_trade_entry erm_default
        (mk_env 1000000 (replicate 10 (mk_trade ''BTC/USDT'' 1))) ''ETH/USDT'' 1 1 = False"
proof -
  have h1: "open_trades (mk_env 1000000 (replicate 10 (mk_trade ''BTC/USDT'' 1)))
     = Some (replicate 10 (mk_trade ''BTC/USDT'' 1))"
    by (simp add: mk_env_def)
  have h2: "length (replicate 10 (mk_trade ''BTC/USDT'' 1)) \<ge> 10"
    by simp
  have h3: "erm_total_risk (replicate 10 (mk_trade ''BTC/USDT'' 1)) + erm_trade_risk 1 1
        \<le> 1000000 * erm_max_total_risk erm_default"
    by (simp add: erm_total_risk_def erm_trade_risk_def erm_default_def mk_trade_def
        or_default_def sum_list_replicate)
  show ?thesis
    using h1 h2 h3 erm_confirm_trade_entry_position_count [OF h1 h2] by simp
qed

lemma erm_total_risk_append:
  "erm_total_risk (xs @ ys) = erm_total_risk xs + erm_total_risk ys"
  by (simp add: erm_total_risk_def)

lemma erm_admitted_within_ceiling:
  assumes "erm_confirm_trade_entry cfg env pr amount rate"
  shows "\<exists>total_stake ots. total_stake_amount env = Some total_stake
           \<and> open_trades env = Some ots
           \<and> erm_total_risk ots + erm_trade_risk amount rate
                \<le> total_stake * erm_max_total_risk cfg"
  using assms
  by (auto simp add: erm_confirm_trade_entry_def erm_confirm_trade_entry_body_def
      split: option.splits if_splits)

text \<open>
  Claim C1. The admission check keeps the reserved risk under its ceiling. With the risk
  already reserved being the sum over the open trades of \<open>|stake \<times> (stop_loss_pct or 0.08)|\<close>
  and the new trade's risk \<open>amount \<times> rate \<times> 0.08\<close>: when their sum exceeds
  \<open>total_stake \<times> max_total_risk\<close> the check returns \<open>False\<close> (it returns \<open>False\<close> on a
  raising framework call too, never an exception); so an admitted entry has the sum within
  the ceiling, and the open trades together with the admitted one, entered at stake
  \<open>amount \<times> rate\<close> and carrying the assumed 8 percent, reserve no more than the ceiling.
\<close>

theorem erm_confirm_trade_entry_risk_ceiling:
  assumes "total_stake_amount env = Some total_stake" and "open_trades env = Some ots"
  shows "(erm_total_risk ots + erm_trade_risk amount rate
            > total_stake * erm_max_total_risk cfg
          \<longrightarrow> erm_confirm_trade_entry cfg env pr amount rate = False)
       \<and> (erm_confirm_trade_entry cfg env pr amount rate
          \<longrightarrow> erm_total_risk ots + erm_trade_risk amount rate
                \<le> total_stake * erm_max_total_risk cfg)
       \<and> (erm_confirm_trade_entry cfg env pr amount rate
          \<longrightarrow> (\<forall>t. stake_amount t = amount * rate \<and> 0 \<le> amount * rate
                     \<and> \<bar>or_default (stop_loss_pct t) (8 / 100)\<bar> = 8 / 100
                \<longrightarrow> erm_total_risk (ots @ [t]) \<le> total_stake * erm_max_total_risk cfg))"
proof -
  have within: "erm_total_risk ots + erm_trade_risk amount rate
                  \<le> total_stake * erm_max_total_risk cfg"
    if "erm_confirm_trade_entry cfg env pr amount rate"
    using erm_admitted_within_ceiling [OF that] assms by auto
  have grown: "erm_total_risk (ots @ [t]) \<le> total_stake * erm_max_total_risk cfg"
    if adm: "erm_confirm_trade_entry cfg env pr amount rate"
      and t: "stake_amount t = amount * rate" "0 \<le> amount * rate"
        "\<bar>or_default (stop_loss_pct t) (8 / 100)\<bar> = 8 / 100" for t
  proof -
    have "erm_total_risk [t] = \<bar>amount * rate\<bar> * (8 / 100)"
      using t by (simp add: erm_total_risk_def abs_mult)
    also have "\<dots> = erm_trade_risk amount rate"
      using t by (simp add: erm_trade_risk_def)
    finally show ?thesis
      using within [OF adm] by (simp add: erm_total_risk_append)
  qed
  show ?thesis
    using within grown by auto
qed

theorem erm_confirm_trade_entry_risk_ceiling_witness:
  "total_stake_amount (mk_env 1000 [mk_trade ''BTC/USDT'' 1000]) = Some 1000
   \<and> open_trades (mk_env 1000 [mk_trade ''BTC/USDT'' 1000]) = Some [mk_trade ''BTC/USDT'' 1000]
   \<and> erm_total_risk [mk_trade ''BTC/USDT'' 1000] + erm_trade_risk 30 100
        > 1000 * erm_max_total_risk erm_default
   \<and> erm_confirm_trade_entry erm_default (mk_env 1000 [mk_trade ''BTC/USDT'' 1000])
        ''ETH/USDT'' 30 100 = False
   \<and> erm_confirm_trade_entry erm_default (mk_env 1000 [mk_trade ''BTC/USDT'' 1000])
        ''ETH/USDT'' 10 100
   \<and> erm_total_risk [mk_trade ''BTC/USDT'' 1000] + erm_trade_risk 10 100
        \<le> 1000 * erm_max_total_risk erm_default
   \<and> erm_total_risk ([mk_trade ''BTC/USDT'' 1000] @ [mk_trade ''ETH/USDT'' (10 * 100)])
        \<le> 1000 * erm_max_total_risk erm_default"
proof -
  let ?env = "mk_env 1000 [mk_trade ''BTC/USDT'' 1000]"
  have h1: "total_stake_amount ?env = Some 1000"
    by (simp add: mk_env_def)
  have h2: "open_trades ?env = Some [mk_trade ''BTC/USDT'' 1000]"
    by (simp add: mk_env_def)
  have over: "erm_total_risk [mk_trade ''BTC/USDT'' 1000] + erm_trade_risk 30 100
        > 1000 * erm_max_total_risk erm_default"
    by (simp add: erm_total_risk_def erm_trade_risk_def erm_default_def mk_trade_def
        or_default_def)
  have adm: "erm_confirm_trade_entry erm_default ?env ''ETH/USDT'' 10 100"
    by (simp add: erm_confirm_trade_entry_def erm_confirm_trade_entry_body_def mk_env_def
        erm_total_risk_def erm_trade_risk_def erm_default_def mk_trade_def or_default_def
        calm_candle_def candle_get_def)
  have t: "stake_amount (mk_trade ''ETH/USDT'' (10 * 100)) = 10 * 100 \<and> (0::real) \<le> 10 * 100
     \<and> \<bar>or_default (stop_loss_pct (mk_trade ''ETH/USDT'' (10 * 100))) (8 / 100)\<bar> = 8 / 100"
    by (simp add: mk_trade_def or_default_def)
  from erm_confirm_trade_entry_risk_ceiling [OF h1 h2, where amount = 30 and rate = 100 and cfg = erm_default and pr = "''ETH/USDT''"]
    erm_confirm_trade_entry_risk_ceiling [OF h1 h2, where amount = 10 and rate = 100 and cfg = erm_default and pr = "''ETH/USDT''"]
  show ?thesis
    using h1 h2 over adm t by blast
qed

lemma erm_exit_rejected:
  assumes "\<not> erm_confirm_trade_exit env pr trade rate exit_reason"
  shows "exit_reason \<in> {''roi'', ''exit_signal''}
         \<and> (\<exists>profit df. calc_profit_ratio env trade rate = Some profit \<and> profit < 2 / 100
               \<and> analyzed_dataframe env pr = Some df \<and> df \<noteq> []
               \<and> \<not> candle_get (last df) ''rsi'' 50 > 80
               \<and> \<not> candle_get (last df) ''bb_width'' 0 > 20 / 100)"
  using assms
  unfolding erm_confirm_trade_exit_def erm_confirm_trade_exit_body_def
  by (auto split: option.splits if_splits)

lemma prs_exit_rejected:
  assumes "\<not> prs_confirm_trade_exit cfg env pr trade rate exit_reason"
  shows "exit_reason = ''exit_signal''
         \<and> (\<exists>profit. calc_profit_ratio env trade rate = Some profit \<and> profit \<le> 15 / 100)
         \<and> \<not> (fst (needs_rebalancing cfg env pr) \<and> fst (snd (needs_rebalancing cfg env pr)) < 0)"
  using assms
  unfolding prs_confirm_trade_exit_def prs_confirm_trade_exit_body_def
  by (auto split: option.splits if_splits prod.splits)

text \<open>
  Claim C8, as the code has it. An exit whose reason is a stop-loss or an emergency exit
  (\<open>stop_loss\<close>, \<open>stoploss_on_exchange\<close>, \<open>emergency_exit\<close>) is confirmed by
  \<open>confirm_trade_exit\<close> for every trade, rate and market state, in
  EnhancedRiskManagedStrategy and in PortfolioRebalancingStrategy. The only exits
  EnhancedRiskManagedStrategy rejects are \<open>roi\<close> and \<open>exit_signal\<close> exits whose profit
  ratio is below 2 percent, losses included, while the last candle shows neither RSI above
  80 nor a Bollinger width above 0.20. The only exits PortfolioRebalancingStrategy rejects
  are \<open>exit_signal\<close> exits with no rebalancing sale pending and a profit ratio of at most
  15 percent, whatever the indicators show.
\<close>

theorem confirm_trade_exit_stop_loss_passes:
  "(exit_reason \<in> {''stop_loss'', ''stoploss_on_exchange'', ''emergency_exit''}
      \<longrightarrow> erm_confirm_trade_exit env pr trade rate exit_reason
          \<and> prs_confirm_trade_exit cfg env pr trade rate exit_reason)
   \<and> (\<not> erm_confirm_trade_exit env pr trade rate exit_reason
      \<longrightarrow> exit_reason \<in> {''roi'', ''exit_signal''}
          \<and> (\<exists>profit df. calc_profit_ratio env trade rate = Some profit \<and> profit < 2 / 100
                \<and> analyzed_dataframe env pr = Some df \<and> df \<noteq> []
                \<and> \<not> candle_get (last df) ''rsi'' 50 > 80
                \<and> \<not> candle_get (last df) ''bb_width'' 0 > 20 / 100))
   \<and> (\<not> prs_confirm_trade_exit cfg env pr trade rate exit_reason
      \<longrightarrow> exit_reason = ''exit_signal''
          \<and> (\<exists>profit. calc_profit_ratio env trade rate = Some profit \<and> profit \<le> 15 / 100)
          \<and> \<not> (fst (needs_rebalancing cfg env pr)
                \<and> fst (snd (needs_rebalancing cfg env pr)) < 0))"
proof -
  have "erm_confirm_trade_exit env pr trade rate exit_reason
        \<and> prs_confirm_trade_exit cfg env pr trade rate exit_reason"
    if "exit_reason \<in> {''stop_loss'', ''stoploss_on_exchange'', ''emergency_exit''}"
    using that
    by (auto simp add: erm_confirm_trade_exit_def erm_confirm_trade_exit_body_def
        prs_confirm_trade_exit_def prs_confirm_trade_exit_body_def)
  then show ?thesis
    using erm_exit_rejected [of env pr trade rate exit_reason]
      prs_exit_rejected [of cfg env pr trade rate exit_reason]
    by blast
qed


lemma needs_rebalancing_balanced:
  "needs_rebalancing prs_default (mk_env 1000 [mk_trade ''BTC/USD'' 400]) ''BTC/USD''
     = (False, 0, Within_threshold 0)"
  by (simp add: needs_rebalancing_def get_asset_category_def ASSET_CATEGORIES_def
      get_target_allocation_def prs_default_def calculate_current_allocations_def
      calculate_current_allocations_body_def mk_env_def mk_trade_def Let_def)

theorem confirm_trade_exit_stop_loss_passes_witness:
  "''stop_loss'' \<in> {''stop_loss'', ''stoploss_on_exchange'', ''emergency_exit''}
   \<and> erm_confirm_trade_exit (mk_env 1000 [mk_trade ''BTC/USD'' 400]) ''BTC/USD''
        (mk_trade ''BTC/USD'' 400) 90 ''stop_loss''
   \<and> prs_confirm_trade_exit prs_default (mk_env 1000 [mk_trade ''BTC/USD'' 400]) ''BTC/USD''
        (mk_trade ''BTC/USD'' 400) 90 ''stop_loss''
   \<and> \<not> erm_confirm_trade_exit (mk_env 1000 [mk_trade ''BTC/USD'' 400]) ''BTC/USD''
        (mk_trade ''BTC/USD'' 400) 101 ''exit_signal''
   \<and> \<not> prs_confirm_trade_exit prs_default (mk_env 1000 [mk_trade ''BTC/USD'' 400]) ''BTC/USD''
        (mk_trade ''BTC/USD'' 400) 101 ''exit_signal''
   \<and> calc_profit_ratio (mk_env 1000 [mk_trade ''BTC/USD'' 400]) (mk_trade ''BTC/USD'' 400) 101
        = Some (1 / 100)
   \<and> \<not> fst (needs_rebalancing prs_default (mk_env 1000 [mk_trade ''BTC/USD'' 400]) ''BTC/USD'')"
proof -
  let ?env = "mk_env 1000 [mk_trade ''BTC/USD'' 400]"
  let ?t = "mk_trade ''BTC/USD'' 400"
  have p1: "''stop_loss'' \<in> {''stop_loss'', ''stoploss_on_exchange'', ''emergency_exit''}"
    by simp
  have p2: "\<not> erm_confirm_trade_exit ?env ''BTC/USD'' ?t 101 ''exit_signal''"
    by (simp add: erm_confirm_trade_exit_def erm_confirm_trade_exit_body_def mk_env_def
        mk_trade_def calm_candle_def candle_get_def)
  have p3: "\<not> prs_confirm_trade_exit prs_default ?env ''BTC/USD'' ?t 101 ''exit_signal''"
    by (simp add: prs_confirm_trade_exit_def prs_confirm_trade_exit_body_def
        needs_rebalancing_balanced) (simp add: mk_env_def mk_trade_def)
  have p4: "calc_profit_ratio ?env ?t 101 = Some (1 / 100)"
    by (simp add: mk_env_def mk_trade_def)
  have p5: "\<not> fst (needs_rebalancing prs_default ?env ''BTC/USD'')"
    by (simp add: needs_rebalancing_balanced)
  from confirm_trade_exit_stop_loss_passes
         [where exit_reason = "''stop_loss''" and env = ?env and pr = "''BTC/USD''"
            and trade = ?t and rate = 90 and cfg = prs_default]
       confirm_trade_exit_stop_loss_passes
         [where exit_reason = "''exit_signal''" and env = ?env and pr = "''BTC/USD''"
            and trade = ?t and rate = 101 and cfg = prs_default]
  show ?thesis
    using p1 p2 p3 p4 p5 by blast
qed

text \<open>
  Rejected exits that are not low-confidence signal exits on barely profitable trades
  without an overbought condition: in EnhancedRiskManagedStrategy an \<open>roi\<close> exit at 1
  percent profit and an \<open>exit_signal\<close> exit on a trade 5 percent under water; in
  PortfolioRebalancingStrategy an \<open>exit_signal\<close> exit at 14 percent profit while the last
  candle has RSI 95.
\<close>

lemma needs_rebalancing_balanced_overbought:
  "needs_rebalancing prs_default (overbought_env 1000 [mk_trade ''BTC/USD'' 400]) ''BTC/USD''
     = (False, 0, Within_threshold 0)"
  by (simp add: needs_rebalancing_def get_asset_category_def ASSET_CATEGORIES_def
      get_target_allocation_def prs_default_def calculate_current_allocations_def
      calculate_current_allocations_body_def overbought_env_def mk_trade_def Let_def)

theorem confirm_trade_exit_stop_loss_passes_counterexample:
  "calc_profit_ratio (mk_env 1000 [mk_trade ''BTC/USD'' 400]) (mk_trade ''BTC/USD'' 400) 101
     = Some (1 / 100)
   \<and> \<not> erm_confirm_trade_exit (mk_env 1000 [mk_trade ''BTC/USD'' 400]) ''BTC/USD''
         (mk_trade ''BTC/USD'' 400) 101 ''roi''
   \<and> calc_profit_ratio (mk_env 1000 [mk_trade ''BTC/USD'' 400]) (mk_trade ''BTC/USD'' 400) 95
     = Some (- (1 / 20))
   \<and> \<not> erm_confirm_trade_exit (mk_env 1000 [mk_trade ''BTC/USD'' 400]) ''BTC/USD''
         (mk_trade ''BTC/USD'' 400) 95 ''exit_signal''
   \<and> analyzed_dataframe (overbought_env 1000 [mk_trade ''BTC/USD'' 400]) ''BTC/USD''
     = Some [overbought_candle]
   \<and> candle_get (last [overbought_candle]) ''rsi'' 50 = 95
   \<and> calc_profit_ratio (overbought_env 1000 [mk_trade ''BTC/USD'' 400])
        (mk_trade ''BTC/USD'' 400) 114 = Some (7 / 50)
   \<and> \<not> prs_confirm_trade_exit prs_default (overbought_env 1000 [mk_trade ''BTC/USD'' 400])
         ''BTC/USD'' (mk_trade ''BTC/USD'' 400) 114 ''exit_signal''"
proof -
  let ?env = "mk_env 1000 [mk_trade ''BTC/USD'' 400]"
  let ?hot = "overbought_env 1000 [mk_trade ''BTC/USD'' 400]"
  let ?t = "mk_trade ''BTC/USD'' 400"
  have p1: "calc_profit_ratio ?env ?t 101 = Some (1 / 100)"
    and p2: "calc_profit_ratio ?env ?t 95 = Some (- (1 / 20))"
    by (simp_all add: mk_env_def mk_trade_def)
  have p3: "calc_profit_ratio ?hot ?t 114 = Some (7 / 50)"
    and d3: "analyzed_dataframe ?hot ''BTC/USD'' = Some [overbought_candle]"
    by (simp_all add: overbought_env_def mk_trade_def)
  have c3: "candle_get (last [overbought_candle]) ''rsi'' 50 = 95"
    by (simp add: overbought_candle_def candle_get_def)
  have calm: "analyzed_dataframe ?env ''BTC/USD'' = Some [calm_candle]"
    by (simp add: mk_env_def)
  have r1: "\<not> erm_confirm_trade_exit ?env ''BTC/USD'' ?t 101 ''roi''"
    by (simp add: erm_confirm_trade_exit_def erm_confirm_trade_exit_body_def p1 calm
        calm_candle_def candle_get_def)
  have r2: "\<not> erm_confirm_trade_exit ?env ''BTC/USD'' ?t 95 ''exit_signal''"
    by (simp add: erm_confirm_trade_exit_def erm_confirm_trade_exit_body_def p2 calm
        calm_candle_def candle_get_def)
  have r3: "\<not> prs_confirm_trade_exit prs_default ?hot ''BTC/USD'' ?t 114 ''exit_signal''"
    by (simp add: prs_confirm_trade_exit_def prs_confirm_trade_exit_body_def
        needs_rebalancing_balanced_overbought p3)
  show ?thesis
    using p1 p2 p3 d3 c3 r1 r2 r3 by simp
qed

section \<open>Rebalancing flag of PortfolioRebalancingStrategy\<close>

lemma needs_rebalancing_no_target:
  "get_target_allocation cfg (get_asset_category pr) = 0
   \<Longrightarrow> needs_rebalancing cfg env pr = (False, 0, No_target_allocation)"
  by (simp add: needs_rebalancing_def)

lemma needs_rebalancing_with_target:
  assumes "get_target_allocation cfg (get_asset_category pr) \<noteq> 0"
  shows "fst (needs_rebalancing cfg env pr)
         \<longleftrightarrow> \<bar>fst (calculate_current_allocations env) (get_asset_category pr)
               - get_target_allocation cfg (get_asset_category pr)\<bar> > rebalance_threshold cfg
             \<and> \<bar>snd (calculate_current_allocations env)
                   * get_target_allocation cfg (get_asset_category pr)
                 - snd (calculate_current_allocations env)
                   * fst (calculate_current_allocations env) (get_asset_category pr)\<bar>
               \<ge> min_rebalance_amount cfg"
  using assms
  by (cases "calculate_current_allocations env")
     (auto simp add: needs_rebalancing_def Let_def)

text \<open>
  Claim C9, as the code has it. \<open>needs_rebalancing\<close> flags the pair's category exactly
  when the category has a non-zero target allocation, the drift
  \<open>|current fraction - target|\<close> exceeds \<open>rebalance_threshold\<close>, and the absolute implied
  capital move \<open>|total_value \<times> target - total_value \<times> current fraction|\<close> is at least
  \<open>min_rebalance_amount\<close>. A category whose target is zero is never flagged.
\<close>

theorem needs_rebalancing_flag:
  "fst (needs_rebalancing cfg env pr)
   \<longleftrightarrow> get_target_allocation cfg (get_asset_category pr) \<noteq> 0
       \<and> \<bar>fst (calculate_current_allocations env) (get_asset_category pr)
           - get_target_allocation cfg (get_asset_category pr)\<bar> > rebalance_threshold cfg
       \<and> \<bar>snd (calculate_current_allocations env)
             * get_target_allocation cfg (get_asset_category pr)
           - snd (calculate_current_allocations env)
             * fst (calculate_current_allocations env) (get_asset_category pr)\<bar>
         \<ge> min_rebalance_amount cfg"
proof (cases "get_target_allocation cfg (get_asset_category pr) = 0")
  case True
  then show ?thesis
    by (simp add: needs_rebalancing_no_target)
next
  case False
  then show ?thesis
    using needs_rebalancing_with_target [OF False, of env] by simp
qed

text \<open>
  The two examples of the claim. Bitcoin target 40 percent; one open Bitcoin trade of
  3000 in a wallet of 10000 (current 30 percent, drift 10 percent, threshold 15 percent):
  not flagged. One open Bitcoin trade of 500 in a wallet of 2500 (current 20 percent,
  drift 20 percent, implied move 500 against a minimum of 100): flagged, change +500.
\<close>

lemma allocations_btc_3000:
  "calculate_current_allocations (mk_env 10000 [mk_trade ''BTC/USD'' 3000])
     = ((\<lambda>c. 0)(BTC := 3 / 10, STABLE := 7 / 10), 10000)"
  by (auto simp add: calculate_current_allocations_def calculate_current_allocations_body_def
      mk_env_def mk_trade_def get_asset_category_def ASSET_CATEGORIES_def Let_def fun_eq_iff)

lemma allocations_btc_500:
  "calculate_current_allocations (mk_env 2500 [mk_trade ''BTC/USD'' 500])
     = ((\<lambda>c. 0)(BTC := 2 / 10, STABLE := 8 / 10), 2500)"
  by (auto simp add: calculate_current_allocations_def calculate_current_allocations_body_def
      mk_env_def mk_trade_def get_asset_category_def ASSET_CATEGORIES_def Let_def fun_eq_iff)

theorem needs_rebalancing_flag_witness:
  "\<not> fst (needs_rebalancing prs_default (mk_env 10000 [mk_trade ''BTC/USD'' 3000]) ''BTC/USD'')
   \<and> fst (needs_rebalancing prs_default (mk_env 2500 [mk_trade ''BTC/USD'' 500]) ''BTC/USD'')"
proof -
  have c: "get_asset_category ''BTC/USD'' = BTC"
    by (simp add: get_asset_category_def ASSET_CATEGORIES_def)
  have t: "get_target_allocation prs_default BTC = 4 / 10"
    by (simp add: get_target_allocation_def prs_default_def)
  have th: "rebalance_threshold prs_default = 15 / 100"
    and m: "min_rebalance_amount prs_default = 100"
    by (simp_all add: prs_default_def)
  show ?thesis
    using needs_rebalancing_flag
            [of prs_default "mk_env 10000 [mk_trade ''BTC/USD'' 3000]" "''BTC/USD''"]
          needs_rebalancing_flag
            [of prs_default "mk_env 2500 [mk_trade ''BTC/USD'' 500]" "''BTC/USD''"]
    by (simp add: c t th m allocations_btc_3000 allocations_btc_500)
qed

text \<open>
  Without the condition on the target the equivalence fails: with
  \<open>target_other_allocation = 0\<close> (the lower end of its range) and an uncategorised pair
  holding half of a wallet of 10000, the drift is 50 percent and the implied move 5000, and the
  category is not flagged.
\<close>

lemma allocations_other_5000:
  "calculate_current_allocations (mk_env 10000 [mk_trade ''XRP/USD'' 5000])
     = ((\<lambda>c. 0)(OTHER := 5 / 10, STABLE := 5 / 10), 10000)"
  by (auto simp add: calculate_current_allocations_def calculate_current_allocations_body_def
      mk_env_def mk_trade_def get_asset_category_def ASSET_CATEGORIES_def Let_def fun_eq_iff)

theorem needs_rebalancing_flag_counterexample:
  "\<not> (fst (needs_rebalancing (prs_default\<lparr>target_other_allocation := 0\<rparr>)
              (mk_env 10000 [mk_trade ''XRP/USD'' 5000]) ''XRP/USD'')
       \<longleftrightarrow> \<bar>fst (calculate_current_allocations (mk_env 10000 [mk_trade ''XRP/USD'' 5000]))
                 (get_asset_category ''XRP/USD'')
               - get_target_allocation (prs_default\<lparr>target_other_allocation := 0\<rparr>)
                   (get_asset_category ''XRP/USD'')\<bar>
             > rebalance_threshold (prs_default\<lparr>target_other_allocation := 0\<rparr>)
           \<and> \<bar>snd (calculate_current_allocations (mk_env 10000 [mk_trade ''XRP/USD'' 5000]))
                 * get_target_allocation (prs_default\<lparr>target_other_allocation := 0\<rparr>)
                     (get_asset_category ''XRP/USD'')
               - snd (calculate_current_allocations (mk_env 10000 [mk_trade ''XRP/USD'' 5000]))
                 * fst (calculate_current_allocations (mk_env 10000 [mk_trade ''XRP/USD'' 5000]))
                     (get_asset_category ''XRP/USD'')\<bar>
             \<ge> min_rebalance_amount (prs_default\<lparr>target_other_allocation := 0\<rparr>))"
proof -
  have c: "get_asset_category ''XRP/USD'' = OTHER"
    by (simp add: get_asset_category_def ASSET_CATEGORIES_def)
  have t: "get_target_allocation (prs_default\<lparr>target_other_allocation := 0\<rparr>) OTHER = 0"
    by (simp add: get_target_allocation_def)
  have n: "needs_rebalancing (prs_default\<lparr>target_other_allocation := 0\<rparr>)
             (mk_env 10000 [mk_trade ''XRP/USD'' 5000]) ''XRP/USD''
           = (False, 0, No_target_allocation)"
    by (simp add: needs_rebalancing_def c t)
  have th: "rebalance_threshold (prs_default\<lparr>target_other_allocation := 0\<rparr>) = 15 / 100"
    and m: "min_rebalance_amount (prs_default\<lparr>target_other_allocation := 0\<rparr>) = 100"
    by (simp_all add: prs_default_def)
  show ?thesis
    by (simp add: n c t th m allocations_other_5000)
qed


section \<open>Regime filter of AggressiveSophisticated1m\<close>

lemma nan_gt_Some [simp]: "nan_gt (Some x) (Some y) \<longleftrightarrow> x > y"
  by (simp add: nan_gt_def)

lemma nan_lt_Some [simp]: "nan_lt (Some x) (Some y) \<longleftrightarrow> x < y"
  by (simp add: nan_lt_def)

lemma nan_gt_asym: "nan_gt a b \<Longrightarrow> \<not> nan_gt b a"
  by (auto simp add: nan_gt_def split: option.splits)

text \<open>The three assignments in sequence amount to this case distinction.\<close>

lemma populate_regime_code:
  "populate_regime cfg row =
     row\<lparr>regime :=
       (if nan_lt (adx row) (Some (real_of_int (adx_range_threshold cfg))) then 3
        else if nan_gt (adx row) (Some (real_of_int (adx_trend_threshold cfg)))
                \<and> nan_gt (minus_di row) (plus_di row) then 2
        else if nan_gt (adx row) (Some (real_of_int (adx_trend_threshold cfg)))
                \<and> nan_gt (plus_di row) (minus_di row) then 1
        else 0)\<rparr>"
  unfolding populate_regime_def Let_def
  by (cases "nan_lt (adx row) (Some (real_of_int (adx_range_threshold cfg)))";
      cases "nan_gt (adx row) (Some (real_of_int (adx_trend_threshold cfg)))";
      cases "nan_gt (minus_di row) (plus_di row)";
      cases "nan_gt (plus_di row) (minus_di row)"; simp)

lemma classify_cases:
  "classify cfg row =
     (if nan_lt (adx row) (Some (real_of_int (adx_range_threshold cfg))) then Range
      else if nan_gt (adx row) (Some (real_of_int (adx_trend_threshold cfg)))
              \<and> nan_gt (minus_di row) (plus_di row) then Downtrend
      else if nan_gt (adx row) (Some (real_of_int (adx_trend_threshold cfg)))
              \<and> nan_gt (plus_di row) (minus_di row) then Uptrend
      else Uncertain)"
  by (simp add: classify_def populate_regime_code regime_label_of_def)

lemma populate_regime_idem:
  "populate_regime cfg (populate_regime cfg row) = populate_regime cfg row"
  by (simp add: populate_regime_code)

text \<open>
  Claim C10. A row whose ADX is below \<open>adx_range_threshold\<close> gets Range, and
  evaluating the filter again on the row it produced changes nothing. With the range
  threshold the lower one and the trend threshold the upper one
  (\<open>adx_range_threshold \<le> adx_trend_threshold\<close>, as in the defaults 20 and 25), a row gets
  Uptrend when its ADX exceeds the trend threshold with +DI above -DI, Downtrend when its
  ADX exceeds the trend threshold with -DI above +DI, and Uncertain in every other case, a
  NaN indicator included.
\<close>

theorem classify_regime:
  "(nan_lt (adx row) (Some (real_of_int (adx_range_threshold cfg)))
      \<longrightarrow> classify cfg row = Range)
   \<and> populate_regime cfg (populate_regime cfg row) = populate_regime cfg row
   \<and> classify cfg (populate_regime cfg row) = classify cfg row
   \<and> (adx_range_threshold cfg \<le> adx_trend_threshold cfg
      \<longrightarrow> (nan_gt (adx row) (Some (real_of_int (adx_trend_threshold cfg)))
             \<and> nan_gt (plus_di row) (minus_di row)
           \<longrightarrow> classify cfg row = Uptrend)
        \<and> (nan_gt (adx row) (Some (real_of_int (adx_trend_threshold cfg)))
             \<and> nan_gt (minus_di row) (plus_di row)
           \<longrightarrow> classify cfg row = Downtrend)
        \<and> (\<not> nan_lt (adx row) (Some (real_of_int (adx_range_threshold cfg)))
             \<and> \<not> (nan_gt (adx row) (Some (real_of_int (adx_trend_threshold cfg)))
                   \<and> nan_gt (plus_di row) (minus_di row))
             \<and> \<not> (nan_gt (adx row) (Some (real_of_int (adx_trend_threshold cfg)))
                   \<and> nan_gt (minus_di row) (plus_di row))
           \<longrightarrow> classify cfg row = Uncertain))"
proof -
  have idem: "classify cfg (populate_regime cfg row) = classify cfg row"
    by (simp add: classify_def populate_regime_idem)
  have above: "\<not> nan_lt (adx row) (Some (real_of_int (adx_range_threshold cfg)))"
    if "adx_range_threshold cfg \<le> adx_trend_threshold cfg"
      and "nan_gt (adx row) (Some (real_of_int (adx_trend_threshold cfg)))"
  proof -
    from that(2) obtain a where a: "adx row = Some a" "a > real_of_int (adx_trend_threshold cfg)"
      by (auto simp add: nan_gt_def split: option.splits)
    have "real_of_int (adx_range_threshold cfg) \<le> real_of_int (adx_trend_threshold cfg)"
      using that(1) by simp
    then show ?thesis
      using a by simp
  qed
  have up: "classify cfg row = Uptrend"
    if "adx_range_threshold cfg \<le> adx_trend_threshold cfg"
      and "nan_gt (adx row) (Some (real_of_int (adx_trend_threshold cfg)))"
      and "nan_gt (plus_di row) (minus_di row)"
    using above [OF that(1,2)] that(2,3) nan_gt_asym [OF that(3)]
    by (simp add: classify_cases)
  have down: "classify cfg row = Downtrend"
    if "adx_range_threshold cfg \<le> adx_trend_threshold cfg"
      and "nan_gt (adx row) (Some (real_of_int (adx_trend_threshold cfg)))"
      and "nan_gt (minus_di row) (plus_di row)"
    using above [OF that(1,2)] that(2,3)
    by (simp add: classify_cases)
  have other: "classify cfg row = Uncertain"
    if "\<not> nan_lt (adx row) (Some (real_of_int (adx_range_threshold cfg)))"
      and "\<not> (nan_gt (adx row) (Some (real_of_int (adx_trend_threshold cfg)))
              \<and> nan_gt (plus_di row) (minus_di row))"
      and "\<not> (nan_gt (adx row) (Some (real_of_int (adx_trend_threshold cfg)))
              \<and> nan_gt (minus_di row) (plus_di row))"
    using that by (auto simp add: classify_cases)
  have range: "classify cfg row = Range"
    if "nan_lt (adx row) (Some (real_of_int (adx_range_threshold cfg)))"
    using that by (simp add: classify_cases)
  show ?thesis
    using idem populate_regime_idem [of cfg row] up down other range by blast
qed

theorem classify_regime_witness:
  "adx_range_threshold agg_default \<le> adx_trend_threshold agg_default
   \<and> nan_lt (adx (mk_snapshot 15 30 10)) (Some (real_of_int (adx_range_threshold agg_default)))
   \<and> classify agg_default (mk_snapshot 15 30 10) = Range
   \<and> nan_gt (adx (mk_snapshot 30 30 10)) (Some (real_of_int (adx_trend_threshold agg_default)))
   \<and> nan_gt (plus_di (mk_snapshot 30 30 10)) (minus_di (mk_snapshot 30 30 10))
   \<and> classify agg_default (mk_snapshot 30 30 10) = Uptrend
   \<and> nan_gt (adx (mk_snapshot 30 10 30)) (Some (real_of_int (adx_trend_threshold agg_default)))
   \<and> nan_gt (minus_di (mk_snapshot 30 10 30)) (plus_di (mk_snapshot 30 10 30))
   \<and> classify agg_default (mk_snapshot 30 10 30) = Downtrend
   \<and> \<not> nan_gt (adx (mk_snapshot 22 30 10)) (Some (real_of_int (adx_trend_threshold agg_default)))
   \<and> \<not> nan_lt (adx (mk_snapshot 22 30 10)) (Some (real_of_int (adx_range_threshold agg_default)))
   \<and> classify agg_default (mk_snapshot 22 30 10) = Uncertain"
proof -
  have o: "adx_range_threshold agg_default \<le> adx_trend_threshold agg_default"
    by (simp add: agg_default_def)
  have a: "nan_lt (adx (mk_snapshot 15 30 10))
             (Some (real_of_int (adx_range_threshold agg_default)))"
    by (simp add: mk_snapshot_def agg_default_def)
  have b: "nan_gt (adx (mk_snapshot 30 30 10))
             (Some (real_of_int (adx_trend_threshold agg_default)))
           \<and> nan_gt (plus_di (mk_snapshot 30 30 10)) (minus_di (mk_snapshot 30 30 10))"
    by (simp add: mk_snapshot_def agg_default_def)
  have c: "nan_gt (adx (mk_snapshot 30 10 30))
             (Some (real_of_int (adx_trend_threshold agg_default)))
           \<and> nan_gt (minus_di (mk_snapshot 30 10 30)) (plus_di (mk_snapshot 30 10 30))"
    by (simp add: mk_snapshot_def agg_default_def)
  have d: "\<not> nan_lt (adx (mk_snapshot 22 30 10))
               (Some (real_of_int (adx_range_threshold agg_default)))
           \<and> \<not> nan_gt (adx (mk_snapshot 22 30 10))
                 (Some (real_of_int (adx_trend_threshold agg_default)))"
    by (simp add: mk_snapshot_def agg_default_def)
  have r1: "classify agg_default (mk_snapshot 15 30 10) = Range"
    using a classify_regime [of "mk_snapshot 15 30 10" agg_default] by blast
  have r2: "classify agg_default (mk_snapshot 30 30 10) = Uptrend"
    using o b classify_regime [of "mk_snapshot 30 30 10" agg_default] by blast
  have r3: "classify agg_default (mk_snapshot 30 10 30) = Downtrend"
    using o c classify_regime [of "mk_snapshot 30 10 30" agg_default] by blast
  have d': "\<not> (nan_gt (adx (mk_snapshot 22 30 10))
                  (Some (real_of_int (adx_trend_threshold agg_default)))
                \<and> nan_gt (plus_di (mk_snapshot 22 30 10)) (minus_di (mk_snapshot 22 30 10)))"
    "\<not> (nan_gt (adx (mk_snapshot 22 30 10))
            (Some (real_of_int (adx_trend_threshold agg_default)))
          \<and> nan_gt (minus_di (mk_snapshot 22 30 10)) (plus_di (mk_snapshot 22 30 10)))"
    using d by simp_all
  have r4: "classify agg_default (mk_snapshot 22 30 10) = Uncertain"
    using o d d' classify_regime [of "mk_snapshot 22 30 10" agg_default] by blast
  show ?thesis
    using o a b c d r1 r2 r3 r4 by simp
qed

text \<open>
  The ordering of the thresholds is needed: the Range assignment is the last of the three
  and overrides the other two. The two thresholds are separate parameters (trend 20 to 35,
  range 15 to 25); were the range threshold 25 set above the trend threshold 20, a row with
  ADX 22 and +DI above -DI would be classified Range.
\<close>

lemma classify_thresholds_inverted:
  "classify agg_overlapping (mk_snapshot 22 30 10) = Range"
  by (simp add: classify_cases mk_snapshot_def agg_overlapping_def)

section \<open>The static floor of the stop-loss\<close>

lemma erm_custom_stoploss_floor:
  "erm_custom_stoploss cfg env pr trade current_time current_rate current_profit
     \<ge> erm_stoploss cfg"
  by (simp add: erm_custom_stoploss_def erm_custom_stoploss_body_def Let_def
      split: option.splits)

lemma dca_custom_stoploss_lower:
  "dca_custom_stoploss cfg trade current_profit
     \<ge> max (dca_stoploss cfg
              - min (4 / 100)
                  (real (length (filter (\<lambda>o'. str_in ''dca'' (tag_or_empty o')) (orders trade)))
                     * (1 / 100)))
            (- (25 / 100))"
  unfolding dca_custom_stoploss_def Let_def
  by (simp add: le_max_iff_disj)

text \<open>
  Claim C3, as the code has it. \<open>custom_stoploss\<close> of EnhancedRiskManagedStrategy never
  returns a stop looser than the class-level \<open>stoploss\<close>, on any input and on the
  exception path. \<open>custom_stoploss\<close> of DCAStrategy lowers the class-level \<open>stoploss\<close> by
  one percentage point for every order whose tag contains \<open>dca\<close>, up to four points, and
  never returns less than -25 percent: its result is never looser than \<open>stoploss - 0.04\<close>,
  never looser than -0.25, and never looser than \<open>stoploss\<close> itself when no order of the
  trade carries such a tag.
\<close>

theorem custom_stoploss_floor:
  "erm_custom_stoploss cfg env pr trade current_time current_rate current_profit
     \<ge> erm_stoploss cfg
   \<and> dca_custom_stoploss dcfg trade current_profit \<ge> dca_stoploss dcfg - 4 / 100
   \<and> dca_custom_stoploss dcfg trade current_profit \<ge> - (25 / 100)
   \<and> dca_custom_stoploss dcfg trade current_profit
       \<ge> dca_stoploss dcfg
           - real (length (filter (\<lambda>o'. str_in ''dca'' (tag_or_empty o')) (orders trade)))
               * (1 / 100)
   \<and> (filter (\<lambda>o'. str_in ''dca'' (tag_or_empty o')) (orders trade) = []
      \<longrightarrow> dca_custom_stoploss dcfg trade current_profit \<ge> dca_stoploss dcfg)"
proof -
  let ?n = "real (length (filter (\<lambda>o'. str_in ''dca'' (tag_or_empty o')) (orders trade)))"
  have lower: "dca_custom_stoploss dcfg trade current_profit
                 \<ge> max (dca_stoploss dcfg - min (4 / 100) (?n * (1 / 100))) (- (25 / 100))"
    by (rule dca_custom_stoploss_lower)
  have a: "dca_custom_stoploss dcfg trade current_profit \<ge> dca_stoploss dcfg - 4 / 100"
    using lower by linarith
  have b: "dca_custom_stoploss dcfg trade current_profit \<ge> - (25 / 100)"
    using lower by linarith
  have c: "dca_custom_stoploss dcfg trade current_profit \<ge> dca_stoploss dcfg - ?n * (1 / 100)"
    using lower by linarith
  have d: "dca_custom_stoploss dcfg trade current_profit \<ge> dca_stoploss dcfg"
    if "filter (\<lambda>o'. str_in ''dca'' (tag_or_empty o')) (orders trade) = []"
    using c that by simp
  show ?thesis
    using erm_custom_stoploss_floor [of cfg env pr trade current_time current_rate current_profit]
      a b c d by blast
qed

theorem custom_stoploss_floor_witness:
  "filter (\<lambda>o'. str_in ''dca'' (tag_or_empty o'))
          (orders (mk_trade ''BTC/USDT'' 100\<lparr>orders := [mk_order ''initial'' 0]\<rparr>)) = []
   \<and> dca_custom_stoploss dca_default
        (mk_trade ''BTC/USDT'' 100\<lparr>orders := [mk_order ''initial'' 0]\<rparr>) (- (10 / 100))
       \<ge> dca_stoploss dca_default
   \<and> erm_custom_stoploss erm_default (mk_env 1000 []) ''BTC/USDT''
        (mk_trade ''BTC/USDT'' 100\<lparr>orders := [mk_order ''initial'' 0]\<rparr>) 3600 100 (- (10 / 100))
       \<ge> erm_stoploss erm_default"
proof -
  let ?t = "mk_trade ''BTC/USDT'' 100\<lparr>orders := [mk_order ''initial'' 0]\<rparr>"
  have h: "filter (\<lambda>o'. str_in ''dca'' (tag_or_empty o')) (orders ?t) = []"
    by (simp add: mk_trade_def mk_order_def tag_or_empty_def str_in_def sublist_code)
  show ?thesis
    using h custom_stoploss_floor
              [of erm_default "mk_env 1000 []" "''BTC/USDT''" ?t 3600 100 "- (10 / 100)"
                  dca_default]
    by blast
qed

text \<open>
  With one order tagged \<open>dca_1\<close> and the trade ten percent under water, DCAStrategy
  returns -13 percent, looser than its class-level \<open>stoploss\<close> of -12 percent.
\<close>

theorem custom_stoploss_floor_counterexample:
  "dca_custom_stoploss dca_default
     (mk_trade ''BTC/USDT'' 100\<lparr>orders := [mk_order ''initial'' 0, mk_order ''dca_1'' 18000]\<rparr>)
     (- (10 / 100)) = - (13 / 100)
   \<and> dca_custom_stoploss dca_default
     (mk_trade ''BTC/USDT'' 100\<lparr>orders := [mk_order ''initial'' 0, mk_order ''dca_1'' 18000]\<rparr>)
     (- (10 / 100)) < dca_stoploss dca_default"
  by (simp add: dca_custom_stoploss_def Let_def mk_trade_def mk_order_def tag_or_empty_def
      str_in_def sublist_code dca_default_def)


section \<open>The DCA controller of DCAStrategy\<close>

text \<open>The level tags the controller looks for.\<close>

lemma str_nat_digit: "n < 10 \<Longrightarrow> str_nat n = [digit_char n]"
  by (simp add: str_nat.simps)

lemma dca_tags:
  "''dca_'' @ str_nat 1 = ''dca_1''" "''dca_'' @ str_nat 2 = ''dca_2''"
  "''dca_'' @ str_nat 3 = ''dca_3''" "''dca_'' @ str_nat 4 = ''dca_4''"
  by (simp_all add: str_nat_digit digit_char_def)

text \<open>What an approval implies, read off the checks in the order the source makes them.\<close>

lemma adjust_trade_position_level_approved:
  assumes "adjust_trade_position_level cfg env trade current_time current_profit
             = Some (level, dca_size)"
  shows "dca_enabled cfg
         \<and> check_dca_timing cfg trade current_time = Some True
         \<and> check_position_limits cfg env trade
         \<and> get_dca_level_and_size cfg env current_profit = Some (level, dca_size)
         \<and> \<not> was_dca_level_triggered trade level"
  using assms
  unfolding adjust_trade_position_level_def adjust_trade_position_body_def
  by (auto split: if_splits option.splits prod.splits)

lemma check_position_limits_passed:
  assumes "check_position_limits cfg env trade"
  shows "\<exists>total_stake. total_stake_amount env = Some total_stake \<and> total_stake > 0
           \<and> current_position_value trade / total_stake < max_total_allocation cfg"
  using assms
  unfolding check_position_limits_def Let_def
  by (auto split: option.splits if_splits)

lemma get_dca_level_and_size_capped:
  assumes "get_dca_level_and_size cfg env current_profit = Some (level, dca_size)"
    and "total_stake_amount env = Some total_stake"
  shows "dca_size \<le> total_stake * (15 / 100) \<and> level \<in> {1, 2, 3, 4}"
  using assms
  unfolding get_dca_level_and_size_def Let_def
  by (auto split: option.splits if_splits)

text \<open>
  Claim C5, as the code has it. When \<open>adjust_trade_position\<close> returns a size, the
  position limit was tested on the allocation before the order: the trade's stake plus
  its pending DCA orders, divided by the wallet total, is strictly below
  \<open>max_total_allocation\<close>. The proposed size is not part of that test; it is capped at 15
  percent of the wallet total. So the allocation after the order is below
  \<open>max_total_allocation + 0.15\<close>, and that is the bound on a single position.
\<close>

theorem adjust_trade_position_allocation:
  assumes "adjust_trade_position cfg env trade current_time current_profit = Some dca_size"
  shows "\<exists>total_stake. total_stake_amount env = Some total_stake \<and> total_stake > 0
           \<and> current_position_value trade / total_stake < max_total_allocation cfg
           \<and> dca_size \<le> total_stake * (15 / 100)
           \<and> (current_position_value trade + dca_size) / total_stake
               < max_total_allocation cfg + 15 / 100"
proof -
  from assms obtain level where
    lv: "adjust_trade_position_level cfg env trade current_time current_profit
           = Some (level, dca_size)"
    by (auto simp add: adjust_trade_position_def)
  note ap = adjust_trade_position_level_approved [OF lv]
  from ap obtain total_stake where
    ts: "total_stake_amount env = Some total_stake" "total_stake > 0"
      "current_position_value trade / total_stake < max_total_allocation cfg"
    using check_position_limits_passed by blast
  have cap: "dca_size \<le> total_stake * (15 / 100)"
    using get_dca_level_and_size_capped ap ts(1) by blast
  have q: "dca_size / total_stake \<le> 15 / 100"
    using cap ts(2) by (simp add: pos_divide_le_eq mult.commute)
  have e: "(current_position_value trade + dca_size) / total_stake
             = current_position_value trade / total_stake + dca_size / total_stake"
    by (rule add_divide_distrib)
  have "(current_position_value trade + dca_size) / total_stake
               < max_total_allocation cfg + 15 / 100"
    unfolding e using q ts(3) by linarith
  then show ?thesis
    using ts cap by blast
qed


theorem adjust_trade_position_allocation_witness:
  "adjust_trade_position dca_default (mk_env 1000 [])
     (mk_trade ''BTC/USDT'' 120\<lparr>orders := [mk_order ''initial'' 0]\<rparr>) 18000 (- (1 / 10))
     = Some 150
   \<and> (\<exists>total_stake. total_stake_amount (mk_env 1000 []) = Some total_stake \<and> total_stake > 0
         \<and> current_position_value
               (mk_trade ''BTC/USDT'' 120\<lparr>orders := [mk_order ''initial'' 0]\<rparr>) / total_stake
             < max_total_allocation dca_default
         \<and> 150 \<le> total_stake * (15 / 100)
         \<and> (current_position_value
               (mk_trade ''BTC/USDT'' 120\<lparr>orders := [mk_order ''initial'' 0]\<rparr>) + 150)
             / total_stake
             < max_total_allocation dca_default + 15 / 100)"
proof -
  let ?t = "mk_trade ''BTC/USDT'' 120\<lparr>orders := [mk_order ''initial'' 0]\<rparr>"
  have en: "dca_enabled dca_default"
    by (simp add: dca_default_def)
  have timing: "check_dca_timing dca_default ?t 18000 = Some True"
    by (simp add: check_dca_timing_def order_dates_def mk_trade_def mk_order_def
        dca_default_def Let_def)
  have limits: "check_position_limits dca_default (mk_env 1000 []) ?t"
    by (simp add: check_position_limits_def current_position_value_def mk_env_def
        mk_trade_def mk_order_def dca_default_def Let_def)
  have level: "get_dca_level_and_size dca_default (mk_env 1000 []) (- (1 / 10))
                 = Some (2, 150)"
    by (simp add: get_dca_level_and_size_def mk_env_def dca_default_def Let_def)
  have fresh: "\<not> was_dca_level_triggered ?t 2"
    by (simp add: was_dca_level_triggered_def dca_tags mk_trade_def mk_order_def
        tag_or_empty_def str_in_def sublist_code Let_def)
  have h: "adjust_trade_position dca_default (mk_env 1000 []) ?t 18000 (- (1 / 10)) = Some 150"
    by (simp add: adjust_trade_position_def adjust_trade_position_level_def
        adjust_trade_position_body_def en timing limits level fresh)
  show ?thesis
    using h adjust_trade_position_allocation [OF h] by blast
qed


text \<open>
  The allocation after an approved order can exceed \<open>max_total_allocation\<close>: in a wallet
  of 1000 with the limit at 35 percent, a position of 340 that is ten percent under water
  five hours after its last order gets an order of 150, which brings it to 49 percent.
\<close>

theorem adjust_trade_position_allocation_counterexample:
  "adjust_trade_position dca_default (mk_env 1000 [])
     (mk_trade ''BTC/USDT'' 340\<lparr>orders := [mk_order ''initial'' 0]\<rparr>) 18000 (- (1 / 10))
     = Some 150
   \<and> total_stake_amount (mk_env 1000 []) = Some 1000
   \<and> (stake_amount (mk_trade ''BTC/USDT'' 340\<lparr>orders := [mk_order ''initial'' 0]\<rparr>) + 150)
        / 1000 > max_total_allocation dca_default"
proof -
  let ?t = "mk_trade ''BTC/USDT'' 340\<lparr>orders := [mk_order ''initial'' 0]\<rparr>"
  have en: "dca_enabled dca_default"
    by (simp add: dca_default_def)
  have timing: "check_dca_timing dca_default ?t 18000 = Some True"
    by (simp add: check_dca_timing_def order_dates_def mk_trade_def mk_order_def
        dca_default_def Let_def)
  have limits: "check_position_limits dca_default (mk_env 1000 []) ?t"
    by (simp add: check_position_limits_def current_position_value_def mk_env_def
        mk_trade_def mk_order_def dca_default_def Let_def)
  have level: "get_dca_level_and_size dca_default (mk_env 1000 []) (- (1 / 10))
                 = Some (2, 150)"
    by (simp add: get_dca_level_and_size_def mk_env_def dca_default_def Let_def)
  have fresh: "\<not> was_dca_level_triggered ?t 2"
    by (simp add: was_dca_level_triggered_def dca_tags mk_trade_def mk_order_def
        tag_or_empty_def str_in_def sublist_code Let_def)
  have h: "adjust_trade_position dca_default (mk_env 1000 []) ?t 18000 (- (1 / 10)) = Some 150"
    by (simp add: adjust_trade_position_def adjust_trade_position_level_def
        adjust_trade_position_body_def en timing limits level fresh)
  show ?thesis
    using h by (simp add: mk_env_def mk_trade_def dca_default_def)
qed







section \<open>The binding of \<open>custom_stake_amount\<close> in EnhancedRiskManagedStrategy\<close>

lemma erm_custom_stake_amount_bound_to_530:
  "class_namespace erm_class_body ''custom_stake_amount'' = Some 530"
  by (simp add: class_namespace_def erm_class_body_def)

lemma erm_custom_stake_amount_530_fallback:
  assumes "environ h ''BOT_INSTANCE_ID'' = None \<or> environ h ''USER_ID'' = None
           \<or> settings_files h (settings_path (environ_get h ''USER_ID'')
                                   (environ_get h ''BOT_INSTANCE_ID'')) = Absent
           \<or> risk_config_files h (risk_config_path (environ_get h ''USER_ID'')
                                      (environ_get h ''BOT_INSTANCE_ID'')) = Absent"
  shows "erm_custom_stake_amount_530 h pr proposed_stake min_stake max_stake = proposed_stake"
  using assms
  unfolding erm_custom_stake_amount_530_def erm_custom_stake_amount_530_body_def Let_def
  by (auto simp add: environ_get_def split: option.splits json_file.splits)

text \<open>
  Claim C6. In the class namespace the name \<open>custom_stake_amount\<close> is bound to the
  definition at source line 530, the later of the two. A call through the class therefore
  runs that definition for every request, and its result does not depend on the strategy
  parameters, the wallet, the open trades or the market data, which only the definition at
  line 151 reads. When \<open>BOT_INSTANCE_ID\<close> or \<open>USER_ID\<close> is unset, or either of the two
  configuration files is absent, the call returns \<open>proposed_stake\<close> unchanged.
\<close>

theorem erm_custom_stake_amount_binding:
  "class_namespace erm_class_body ''custom_stake_amount'' = Some 530
   \<and> erm_custom_stake_amount cfg env h pr current_rate proposed_stake min_stake max_stake
         entry_tag
       = Some (erm_custom_stake_amount_530 h pr proposed_stake min_stake max_stake)
   \<and> (environ h ''BOT_INSTANCE_ID'' = None \<or> environ h ''USER_ID'' = None
        \<or> settings_files h (settings_path (environ_get h ''USER_ID'')
                                (environ_get h ''BOT_INSTANCE_ID'')) = Absent
        \<or> risk_config_files h (risk_config_path (environ_get h ''USER_ID'')
                                   (environ_get h ''BOT_INSTANCE_ID'')) = Absent
      \<longrightarrow> erm_custom_stake_amount cfg env h pr current_rate proposed_stake min_stake max_stake
            entry_tag
          = Some proposed_stake)"
proof -
  have call: "erm_custom_stake_amount cfg env h pr current_rate proposed_stake min_stake
                max_stake entry_tag
              = Some (erm_custom_stake_amount_530 h pr proposed_stake min_stake max_stake)"
    by (simp add: erm_custom_stake_amount_def erm_custom_stake_amount_bound_to_530)
  show ?thesis
    using call erm_custom_stake_amount_bound_to_530
      erm_custom_stake_amount_530_fallback [of h pr proposed_stake min_stake max_stake]
    by simp
qed

text \<open>
  On a wallet of 1000 with no open trade and a calm market, a request proposing 100 gets
  100 back through the class, with the environment variables unset and also with them set
  but the files absent; the definition at line 151 would have sized it at 175/3.
\<close>

lemma erm_custom_stake_amount_151_example:
  "erm_custom_stake_amount_151 erm_default (mk_env 1000 []) ''BTC/USDT'' 100 100 None 1000
     (Some ''trend_momentum'') = 175 / 3"
  by (simp add: erm_custom_stake_amount_151_def erm_custom_stake_amount_151_body_def
      erm_volatility_multiplier_def erm_risk_based_stake_def mk_env_def calm_candle_def
      candle_get_def erm_default_def erm_open_trades_risk_def or_default_def Let_def)

theorem erm_custom_stake_amount_binding_witness:
  "environ bare_host ''BOT_INSTANCE_ID'' = None
   \<and> erm_custom_stake_amount erm_default (mk_env 1000 []) bare_host ''BTC/USDT'' 100 100 None
         1000 (Some ''trend_momentum'') = Some 100
   \<and> environ (bare_host\<lparr>environ := [''BOT_INSTANCE_ID'' \<mapsto> ''bot-1'', ''USER_ID'' \<mapsto> ''u1'']\<rparr>)
         ''BOT_INSTANCE_ID'' \<noteq> None
   \<and> environ (bare_host\<lparr>environ := [''BOT_INSTANCE_ID'' \<mapsto> ''bot-1'', ''USER_ID'' \<mapsto> ''u1'']\<rparr>)
         ''USER_ID'' \<noteq> None
   \<and> erm_custom_stake_amount erm_default (mk_env 1000 [])
         (bare_host\<lparr>environ := [''BOT_INSTANCE_ID'' \<mapsto> ''bot-1'', ''USER_ID'' \<mapsto> ''u1'']\<rparr>)
         ''BTC/USDT'' 100 100 None 1000 (Some ''trend_momentum'') = Some 100
   \<and> erm_custom_stake_amount_151 erm_default (mk_env 1000 []) ''BTC/USDT'' 100 100 None 1000
         (Some ''trend_momentum'') \<noteq> 100"
proof -
  let ?h = "bare_host\<lparr>environ := [''BOT_INSTANCE_ID'' \<mapsto> ''bot-1'', ''USER_ID'' \<mapsto> ''u1'']\<rparr>"
  have a: "environ bare_host ''BOT_INSTANCE_ID'' = None"
    by (simp add: bare_host_def)
  have b: "environ ?h ''BOT_INSTANCE_ID'' \<noteq> None" "environ ?h ''USER_ID'' \<noteq> None"
    by simp_all
  have c: "settings_files ?h (settings_path (environ_get ?h ''USER_ID'')
                                (environ_get ?h ''BOT_INSTANCE_ID'')) = Absent"
    by (simp add: bare_host_def)
  have r1: "erm_custom_stake_amount erm_default (mk_env 1000 []) bare_host ''BTC/USDT'' 100 100
              None 1000 (Some ''trend_momentum'') = Some 100"
    using a erm_custom_stake_amount_binding
              [of erm_default "mk_env 1000 []" bare_host "''BTC/USDT''" 100 100 None 1000
                  "Some ''trend_momentum''"]
    by blast
  have r2: "erm_custom_stake_amount erm_default (mk_env 1000 []) ?h ''BTC/USDT'' 100 100
              None 1000 (Some ''trend_momentum'') = Some 100"
    using c erm_custom_stake_amount_binding
              [of erm_default "mk_env 1000 []" ?h "''BTC/USDT''" 100 100 None 1000
                  "Some ''trend_momentum''"]
    by blast
  show ?thesis
    using a b r1 r2 by (simp add: erm_custom_stake_amount_151_example)
qed


section \<open>The stop-loss from one tick to the next\<close>

lemma erm_custom_stoploss_eq:
  assumes "analyzed_dataframe env pr = Some df" and "df \<noteq> []" and "current_rate \<noteq> 0"
  shows "erm_custom_stoploss cfg env pr trade current_time current_rate current_profit =
           max (if current_profit > 5 / 100
                then max (erm_volatility_stop df current_rate
                            * max (5 / 10) (1 - current_profit * 2)) (- (3 / 100))
                else erm_volatility_stop df current_rate
                       * max (5 / 10) (1 - (current_time - open_date_utc trade) / 3600 / 48))
               (erm_stoploss cfg)"
  using assms
  by (simp add: erm_custom_stoploss_def erm_custom_stoploss_body_def erm_volatility_stop_def
      Let_def)

lemma scaled_stop_mono:
  fixes v1 v2 f1 f2 :: real
  assumes "v1 \<le> v2" and "v2 \<le> 0" and "f2 \<le> f1" and "0 \<le> f1"
  shows "v1 * f1 \<le> v2 * f2"
proof -
  have "v1 * f1 \<le> v2 * f1"
    using assms(1,4) by (rule mult_right_mono)
  also have "v2 * f1 \<le> v2 * f2"
    using assms(3,2) by (rule mult_left_mono_neg)
  finally show ?thesis .
qed

lemma erm_custom_stoploss_mono:
  assumes df1: "analyzed_dataframe env1 pr = Some df1" "df1 \<noteq> []" "rate1 \<noteq> 0"
    and df2: "analyzed_dataframe env2 pr = Some df2" "df2 \<noteq> []" "rate2 \<noteq> 0"
    and vs: "erm_volatility_stop df1 rate1 \<le> erm_volatility_stop df2 rate2"
      "erm_volatility_stop df2 rate2 \<le> 0"
    and time: "time1 \<le> time2"
    and profit: "(profit1 \<le> 5 / 100 \<and> profit2 \<le> 5 / 100)
                 \<or> (5 / 100 < profit1 \<and> profit1 \<le> profit2)"
  shows "erm_custom_stoploss cfg env1 pr trade time1 rate1 profit1
           \<le> erm_custom_stoploss cfg env2 pr trade time2 rate2 profit2"
proof -
  let ?tf1 = "max (5 / 10) (1 - (time1 - open_date_utc trade) / 3600 / 48)"
  let ?tf2 = "max (5 / 10) (1 - (time2 - open_date_utc trade) / 3600 / 48)"
  let ?pf1 = "max (5 / 10) (1 - profit1 * 2)"
  let ?pf2 = "max (5 / 10) (1 - profit2 * 2)"
  let ?v1 = "erm_volatility_stop df1 rate1"
  let ?v2 = "erm_volatility_stop df2 rate2"
  from profit show ?thesis
  proof
    assume low: "profit1 \<le> 5 / 100 \<and> profit2 \<le> 5 / 100"
    have "(time2 - open_date_utc trade) / 3600 / 48 \<ge> (time1 - open_date_utc trade) / 3600 / 48"
      using time by (simp add: divide_right_mono)
    then have "?tf2 \<le> ?tf1"
      by (intro max.mono) simp_all
    moreover have "0 \<le> ?tf1"
      by (simp add: le_max_iff_disj)
    ultimately have "?tf2 \<le> ?tf1" and "0 \<le> ?tf1"
      by simp_all
    then have "?v1 * ?tf1 \<le> ?v2 * ?tf2"
      using vs by (intro scaled_stop_mono)
    then show ?thesis
      using low by (simp add: erm_custom_stoploss_eq [OF df1] erm_custom_stoploss_eq [OF df2]
          max.coboundedI1)
  next
    assume high: "5 / 100 < profit1 \<and> profit1 \<le> profit2"
    have "?pf2 \<le> ?pf1"
      using high by (intro max.mono) simp_all
    moreover have "0 \<le> ?pf1"
      by (simp add: le_max_iff_disj)
    ultimately have "?pf2 \<le> ?pf1" and "0 \<le> ?pf1"
      by simp_all
    then have "?v1 * ?pf1 \<le> ?v2 * ?pf2"
      using vs by (intro scaled_stop_mono)
    then have "max (?v1 * ?pf1) (- (3 / 100)) \<le> max (?v2 * ?pf2) (- (3 / 100))"
      by (rule max.mono) simp
    then have "max (max (?v1 * ?pf1) (- (3 / 100))) (erm_stoploss cfg)
                 \<le> max (max (?v2 * ?pf2) (- (3 / 100))) (erm_stoploss cfg)"
      by (rule max.mono) simp
    moreover have "5 / 100 < profit2"
      using high by linarith
    ultimately show ?thesis
      using high by (simp add: erm_custom_stoploss_eq [OF df1] erm_custom_stoploss_eq [OF df2])
  qed
qed

lemma hfs_custom_stoploss_mono:
  assumes "1 / 100 \<le> profit1" and "profit1 \<le> profit2"
  shows "hfs_custom_stoploss profit1 \<le> hfs_custom_stoploss profit2"
  using assms
  by (simp add: hfs_custom_stoploss_def Let_def) linarith

lemma erm_custom_stoploss_above_volatility_stop:
  assumes df: "analyzed_dataframe env pr = Some df" "df \<noteq> []" "current_rate \<noteq> 0"
    and vs: "erm_volatility_stop df current_rate \<le> 0"
    and age: "open_date_utc trade \<le> current_time"
  shows "erm_volatility_stop df current_rate
           \<le> erm_custom_stoploss cfg env pr trade current_time current_rate current_profit"
proof -
  let ?v = "erm_volatility_stop df current_rate"
  have scale: "?v \<le> ?v * f" if "f \<le> 1" for f
    using mult_left_mono_neg [OF that vs] by simp
  show ?thesis
  proof (cases "current_profit > 5 / 100")
    case True
    then have "max (5 / 10) (1 - current_profit * 2) \<le> 1"
      by simp
    then have "?v \<le> ?v * max (5 / 10) (1 - current_profit * 2)"
      by (rule scale)
    then show ?thesis
      using True by (simp add: erm_custom_stoploss_eq [OF df] le_max_iff_disj)
  next
    case False
    have "0 \<le> (current_time - open_date_utc trade) / 3600 / 48"
      using age by simp
    then have "max (5 / 10) (1 - (current_time - open_date_utc trade) / 3600 / 48) \<le> 1"
      by simp
    then have "?v \<le> ?v * max (5 / 10) (1 - (current_time - open_date_utc trade) / 3600 / 48)"
      by (rule scale)
    then show ?thesis
      using False by (simp add: erm_custom_stoploss_eq [OF df] le_max_iff_disj)
  qed
qed

text \<open>
  Claim C2, as the code has it. \<open>custom_stoploss\<close> keeps no record of the stop it returned
  before; each result is computed from the current tick alone. For
  EnhancedRiskManagedStrategy the stop of a later tick is not looser than the stop of an
  earlier tick of the same trade when the volatility stop \<open>-min(2.5 ATR / rate, 0.15)\<close> has
  not loosened and is not positive, and either both ticks have a profit of at most 5
  percent or both have more and the profit has not fallen. Whenever the volatility stop is
  not positive and the trade has been open for a non-negative time, the returned stop is
  not looser than that tick's volatility stop: a volatility stop of -6 percent followed by
  one of -4 percent gives a stop of -4 percent or tighter on the later tick. For
  HighFrequencyScalp1m the value returned does not fall between two ticks with a profit of
  at least 1 percent when the profit has not fallen.
\<close>

theorem custom_stoploss_tick_over_tick:
  "(analyzed_dataframe env1 pr = Some df1 \<and> df1 \<noteq> [] \<and> rate1 \<noteq> 0
      \<and> analyzed_dataframe env2 pr = Some df2 \<and> df2 \<noteq> [] \<and> rate2 \<noteq> 0
      \<and> erm_volatility_stop df1 rate1 \<le> erm_volatility_stop df2 rate2
      \<and> erm_volatility_stop df2 rate2 \<le> 0
      \<and> time1 \<le> time2
      \<and> ((profit1 \<le> 5 / 100 \<and> profit2 \<le> 5 / 100)
           \<or> (5 / 100 < profit1 \<and> profit1 \<le> profit2))
    \<longrightarrow> erm_custom_stoploss cfg env1 pr trade time1 rate1 profit1
          \<le> erm_custom_stoploss cfg env2 pr trade time2 rate2 profit2)
   \<and> (analyzed_dataframe env2 pr = Some df2 \<and> df2 \<noteq> [] \<and> rate2 \<noteq> 0
      \<and> erm_volatility_stop df2 rate2 \<le> 0 \<and> open_date_utc trade \<le> time2
    \<longrightarrow> erm_volatility_stop df2 rate2
          \<le> erm_custom_stoploss cfg env2 pr trade time2 rate2 profit2)
   \<and> (1 / 100 \<le> profit1 \<and> profit1 \<le> profit2
    \<longrightarrow> hfs_custom_stoploss profit1 \<le> hfs_custom_stoploss profit2)"
  using erm_custom_stoploss_mono [of env1 pr df1 rate1 env2 df2 rate2 time1 time2 profit1
          profit2 cfg trade]
    erm_custom_stoploss_above_volatility_stop [of env2 pr df2 rate2 trade time2 cfg profit2]
    hfs_custom_stoploss_mono [of profit1 profit2]
  by blast

text \<open>
  The example of the specification: rate 100, ATR 2.4 one hour after the open (volatility
  stop -6 percent) and ATR 1.6 an hour later (volatility stop -4 percent), no profit.
\<close>

lemma volatility_stop_examples:
  "erm_volatility_stop [[''atr'' \<mapsto> 12 / 5]] 100 = - (6 / 100)"
  "erm_volatility_stop [[''atr'' \<mapsto> 8 / 5]] 100 = - (4 / 100)"
  by (simp_all add: erm_volatility_stop_def candle_get_def)

theorem custom_stoploss_tick_over_tick_witness:
  "erm_volatility_stop [[''atr'' \<mapsto> 12 / 5]] 100 \<le> erm_volatility_stop [[''atr'' \<mapsto> 8 / 5]] 100
   \<and> erm_volatility_stop [[''atr'' \<mapsto> 8 / 5]] 100 \<le> 0
   \<and> erm_custom_stoploss erm_default (atr_env (12 / 5)) ''BTC/USDT''
         (mk_trade ''BTC/USDT'' 100) 3600 100 0
       \<le> erm_custom_stoploss erm_default (atr_env (8 / 5)) ''BTC/USDT''
           (mk_trade ''BTC/USDT'' 100) 7200 100 0
   \<and> - (4 / 100) \<le> erm_custom_stoploss erm_default (atr_env (8 / 5)) ''BTC/USDT''
                       (mk_trade ''BTC/USDT'' 100) 7200 100 0
   \<and> hfs_custom_stoploss (2 / 100) \<le> hfs_custom_stoploss (4 / 100)"
proof -
  let ?t = "mk_trade ''BTC/USDT'' 100"
  have d1: "analyzed_dataframe (atr_env (12 / 5)) ''BTC/USDT'' = Some [[''atr'' \<mapsto> 12 / 5]]"
    and d2: "analyzed_dataframe (atr_env (8 / 5)) ''BTC/USDT'' = Some [[''atr'' \<mapsto> 8 / 5]]"
    by (simp_all add: atr_env_def)
  have ne: "[[''atr'' \<mapsto> 12 / 5 :: real]] \<noteq> []" "[[''atr'' \<mapsto> 8 / 5 :: real]] \<noteq> []"
    "(100 :: real) \<noteq> 0"
    by simp_all
  have vs: "erm_volatility_stop [[''atr'' \<mapsto> 12 / 5]] 100
              \<le> erm_volatility_stop [[''atr'' \<mapsto> 8 / 5]] 100"
    "erm_volatility_stop [[''atr'' \<mapsto> 8 / 5]] 100 \<le> 0"
    by (simp_all add: volatility_stop_examples)
  have tm: "(3600 :: real) \<le> 7200" "open_date_utc ?t \<le> 7200"
    by (simp_all add: mk_trade_def)
  have pr: "(0 :: real) \<le> 5 / 100" "(1 :: real) / 100 \<le> 2 / 100" "(2 :: real) / 100 \<le> 4 / 100"
    by simp_all
  note inst = custom_stoploss_tick_over_tick
      [where ?env1.0 = "atr_env (12 / 5)" and ?env2.0 = "atr_env (8 / 5)"
         and pr = "''BTC/USDT''" and ?df1.0 = "[[''atr'' \<mapsto> 12 / 5]]"
         and ?df2.0 = "[[''atr'' \<mapsto> 8 / 5]]" and ?rate1.0 = 100 and ?rate2.0 = 100
         and ?time1.0 = 3600 and ?time2.0 = 7200 and cfg = erm_default and trade = ?t]
  have a: "erm_custom_stoploss erm_default (atr_env (12 / 5)) ''BTC/USDT'' ?t 3600 100 0
             \<le> erm_custom_stoploss erm_default (atr_env (8 / 5)) ''BTC/USDT'' ?t 7200 100 0"
    using inst [where ?profit1.0 = 0 and ?profit2.0 = 0] d1 d2 ne vs tm pr by blast
  have b: "erm_volatility_stop [[''atr'' \<mapsto> 8 / 5]] 100
             \<le> erm_custom_stoploss erm_default (atr_env (8 / 5)) ''BTC/USDT'' ?t 7200 100 0"
    using inst [where ?profit1.0 = 0 and ?profit2.0 = 0] d2 ne vs tm by blast
  have c: "hfs_custom_stoploss (2 / 100) \<le> hfs_custom_stoploss (4 / 100)"
    using inst [where ?profit1.0 = "2 / 100" and ?profit2.0 = "4 / 100"] pr by blast
  show ?thesis
    using vs a b c by (simp add: volatility_stop_examples)
qed

text \<open>
  The stop loosens when volatility rises: with the ATR going from 1.6 to 2.4 between the
  open and 2.4 hours later, the stop returned goes from -4 percent to -5.7 percent. In
  HighFrequencyScalp1m a profit falling from 4 to 2 percent lowers the value returned from
  0.02 to 0.01.
\<close>

theorem custom_stoploss_tick_over_tick_counterexample:
  "erm_custom_stoploss erm_default (atr_env (8 / 5)) ''BTC/USDT''
     (mk_trade ''BTC/USDT'' 100) 0 100 0 = - (4 / 100)
   \<and> erm_custom_stoploss erm_default (atr_env (12 / 5)) ''BTC/USDT''
     (mk_trade ''BTC/USDT'' 100) 8640 100 0 = - (57 / 1000)
   \<and> erm_custom_stoploss erm_default (atr_env (12 / 5)) ''BTC/USDT''
       (mk_trade ''BTC/USDT'' 100) 8640 100 0
     < erm_custom_stoploss erm_default (atr_env (8 / 5)) ''BTC/USDT''
         (mk_trade ''BTC/USDT'' 100) 0 100 0
   \<and> hfs_custom_stoploss (4 / 100) = 2 / 100
   \<and> hfs_custom_stoploss (2 / 100) = 1 / 100"
  by (simp add: erm_custom_stoploss_def erm_custom_stoploss_body_def atr_env_def
      candle_get_def mk_trade_def erm_default_def hfs_custom_stoploss_def Let_def)


end
